theory Spec2Isabelle
  imports Complex_Main "HOL-Library.Sublist" "HOL-Library.Signed_Division" "HOL-Library.Log_Nat"
begin

section \<open>Shared types of package scalers\<close>

text \<open>
  A Go \<^verbatim>\<open>error\<close> is known to this code only through its message
  (\<^verbatim>\<open>err.Error()\<close>), so an error value is its message.  The sentinel
  \<^verbatim>\<open>iterator.Done\<close>, which the code compares by identity, is not part of this
  type: it is the end of the list of results of an iterator (see below).
  A pair \<^verbatim>\<open>(v, err)\<close> of which the code only ever uses one side is a sum
  \<open>error + 'a\<close>; where the code returns a value together with an error, the model
  returns the pair \<open>'a \<times> error option\<close> as it is.
\<close>

datatype error = Error (message: string)

text \<open>
  Go's \<^verbatim>\<open>int\<close>, \<^verbatim>\<open>int64\<close> and \<^verbatim>\<open>time.Duration\<close>
  are modelled by \<open>int\<close>; the places where the 64-bit range matters (the quotient of two
  durations, the conversions from and to \<^verbatim>\<open>float64\<close>) write the range out.
\<close>

definition minInt64 :: int where
  "minInt64 = - (2 ^ 63)"

definition maxInt64 :: int where
  "maxInt64 = 2 ^ 63 - 1"

definition maxUint64 :: int where
  "maxUint64 = 2 ^ 64 - 1"

definition in_int64 :: "int \<Rightarrow> bool" where
  "in_int64 n = (minInt64 \<le> n \<and> n \<le> maxInt64)"

text \<open>The trigger configuration handed to a scaler's constructor (the fields this code reads).\<close>

record ScalerConfig =
  TriggerMetadata :: "string \<rightharpoonup> string"
  AuthParams :: "string \<rightharpoonup> string"
  ResolvedEnv :: "string \<rightharpoonup> string"
  ScalerIndex :: int
  MetricType :: string

datatype MetricTargetType = ValueMetricType | AverageValueMetricType | UtilizationMetricType

text \<open>
  \<^verbatim>\<open>external_metrics.ExternalMetricValue\<close>: the quantity is built by
  \<^verbatim>\<open>resource.NewQuantity(v, resource.DecimalSI)\<close> from an int64 and is kept as
  that integer; the timestamp is the clock reading \<^verbatim>\<open>metav1.Now()\<close>.
\<close>

record ExternalMetricValue =
  MetricName :: string
  Value :: int
  Timestamp :: int

text \<open>
  The functions both scalers call and whose code is not part of these files, as parameters:
  \<^verbatim>\<open>GetMetricTargetType\<close> and \<^verbatim>\<open>GenerateMetricNameWithIndex\<close> of this
  package, \<^verbatim>\<open>kedautil.NormalizeString\<close>, and
  \<^verbatim>\<open>strconv.ParseInt(s, 10, 64)\<close>.
\<close>

record scalers_externals =
  GetMetricTargetType :: "ScalerConfig \<Rightarrow> error + MetricTargetType"
  ParseInt :: "string \<Rightarrow> error + int"
  NormalizeString :: "string \<Rightarrow> string"
  GenerateMetricNameWithIndex :: "int \<Rightarrow> string \<Rightarrow> string"

text \<open>What a constructor does to the outside world, in order.\<close>

datatype conn_event =
    StorageNewClient
  | PrometheusPing
  | GrpcDial

text \<open>\<^verbatim>\<open>strings.Contains(s, substr)\<close>: \<open>substr\<close> occurs in \<open>s\<close> as a contiguous block.\<close>

fun HasPrefix :: "string \<Rightarrow> string \<Rightarrow> bool" where
  "HasPrefix s [] = True"
| "HasPrefix [] (p # ps) = False"
| "HasPrefix (c # cs) (p # ps) = (c = p \<and> HasPrefix cs ps)"

fun Contains :: "string \<Rightarrow> string \<Rightarrow> bool" where
  "Contains [] substr = (substr = [])"
| "Contains (c # cs) substr = (HasPrefix (c # cs) substr \<or> Contains cs substr)"


section \<open>The GCP storage scaler (gcp\_storage\_scaler.go)\<close>

definition defaultTargetObjectCount :: int where
  "defaultTargetObjectCount = 100"

definition defaultMaxBucketItemsToScan :: int where
  "defaultMaxBucketItemsToScan = 1000"

record gcpAuthorizationMetadata =
  GoogleApplicationCredentials :: string
  GoogleApplicationCredentialsFile :: string
  podIdentityProviderEnabled :: bool

record gcsMetadata =
  bucketName :: string
  gcpAuthorization :: gcpAuthorizationMetadata
  maxBucketItemsToScan :: int
  metricName :: string
  targetObjectCount :: int

text \<open>
  One call of \<^verbatim>\<open>it.Next()\<close> returns an object or an error.  The behaviour of
  \<^verbatim>\<open>s.bucket.Objects(ctx, query)\<close> is the list of the results of its successive
  \<^verbatim>\<open>Next\<close> calls; once the list is used up, \<^verbatim>\<open>Next\<close> returns
  \<^verbatim>\<open>iterator.Done\<close>.  \<open>attrSelection\<close> is what
  \<^verbatim>\<open>query.SetAttrSelection([]string{"Name"})\<close> of the storage library returns.
\<close>

datatype next_result = NextObject | NextError error

record BucketHandle =
  attrSelection :: "error option"
  Objects :: "next_result list"

record gcsScaler =
  bucket :: BucketHandle
  metricType :: MetricTargetType
  metadata :: gcsMetadata

datatype ClientOption =
    NoOption
  | WithCredentialsFile string
  | WithCredentialsJSON string

text \<open>
  The functions of the repository and of its libraries that the scaler calls and whose code is
  not part of these files, as parameters: \<^verbatim>\<open>strconv.Atoi\<close>,
  \<^verbatim>\<open>getGcpAuthorization\<close> and \<^verbatim>\<open>storage.NewClient\<close>, whose client
  maps a bucket name to a handle (\<^verbatim>\<open>client.Bucket\<close>).
\<close>

record gcs_externals = scalers_externals +
  getGcpAuthorization :: "ScalerConfig \<Rightarrow> (string \<rightharpoonup> string) \<Rightarrow> error + gcpAuthorizationMetadata"
  Atoi :: "string \<Rightarrow> error + int"
  NewClient :: "ClientOption \<Rightarrow> error + (string \<Rightarrow> BucketHandle option)"

text \<open>parseGcsMetadata (lines 93-140).\<close>

definition parseGcsMetadata :: "gcs_externals \<Rightarrow> ScalerConfig \<Rightarrow> error + gcsMetadata" where
  "parseGcsMetadata ext config =
    (case TriggerMetadata config ''bucketName'' of
       None \<Rightarrow> Inl (Error ''no bucket name given'')
     | Some b \<Rightarrow>
        if b = [] then Inl (Error ''no bucket name given'')
        else
          (case (case TriggerMetadata config ''targetObjectCount'' of
                   None \<Rightarrow> Inr defaultTargetObjectCount
                 | Some v \<Rightarrow>
                     (case ParseInt ext v of
                        Inl err \<Rightarrow> Inl (Error (''error parsing targetObjectCount: '' @ message err))
                      | Inr n \<Rightarrow> Inr n)) of
             Inl err \<Rightarrow> Inl err
           | Inr toc \<Rightarrow>
              (case (case TriggerMetadata config ''maxBucketItemsToScan'' of
                       None \<Rightarrow> Inr defaultMaxBucketItemsToScan
                     | Some v \<Rightarrow>
                         (case Atoi ext v of
                            Inl err \<Rightarrow> Inl (Error (''error parsing maxBucketItemsToScan: '' @ message err))
                          | Inr n \<Rightarrow> Inr n)) of
                 Inl err \<Rightarrow> Inl err
               | Inr mx \<Rightarrow>
                  (case getGcpAuthorization ext config (ResolvedEnv config) of
                     Inl err \<Rightarrow> Inl err
                   | Inr auth \<Rightarrow>
                       Inr \<lparr> bucketName = b,
                             gcpAuthorization = auth,
                             maxBucketItemsToScan = mx,
                             metricName = GenerateMetricNameWithIndex ext (ScalerConfig.ScalerIndex config)
                                            (NormalizeString ext (''gcp-storage-'' @ b)),
                             targetObjectCount = toc \<rparr>))))"

text \<open>
  NewGcsScaler (lines 48-91).  The second component lists the connections made:
  \<^verbatim>\<open>storage.NewClient\<close> is the only one.
\<close>

definition NewGcsScaler :: "gcs_externals \<Rightarrow> ScalerConfig \<Rightarrow> (error + gcsScaler) \<times> conn_event list" where
  "NewGcsScaler ext config =
    (case GetMetricTargetType ext config of
       Inl err \<Rightarrow> (Inl (Error (''error getting scaler metric type: '' @ message err)), [])
     | Inr mt \<Rightarrow>
        (case parseGcsMetadata ext config of
           Inl err \<Rightarrow> (Inl (Error (''error parsing GCP storage metadata: '' @ message err)), [])
         | Inr meta \<Rightarrow>
            (case NewClient ext
                    (if podIdentityProviderEnabled (gcpAuthorization meta) then NoOption
                     else if GoogleApplicationCredentialsFile (gcpAuthorization meta) \<noteq> []
                     then WithCredentialsFile (GoogleApplicationCredentialsFile (gcpAuthorization meta))
                     else WithCredentialsJSON (GoogleApplicationCredentials (gcpAuthorization meta))) of
               Inl err \<Rightarrow> (Inl (Error (''storage.NewClient: '' @ message err)), [StorageNewClient])
             | Inr client \<Rightarrow>
                (case client (bucketName meta) of
                   None \<Rightarrow> (Inl (Error (''failed to create a handle to bucket '' @ bucketName meta)),
                            [StorageNewClient])
                 | Some b \<Rightarrow> (Inr \<lparr> bucket = b, metricType = mt, metadata = meta \<rparr>,
                             [StorageNewClient])))))"

text \<open>
  The loop of getItemCount (lines 199-213), from a running count on.  The third component
  counts the calls of \<^verbatim>\<open>it.Next()\<close>.  \<^verbatim>\<open>count++\<close> runs only under
  \<^verbatim>\<open>count < int64(maxCount)\<close>, so it never leaves the int64 range.
\<close>

fun getItemCount_loop :: "next_result list \<Rightarrow> int \<Rightarrow> int \<Rightarrow> nat \<Rightarrow> int \<times> error option \<times> nat" where
  "getItemCount_loop [] maxCount count calls =
     (if count < maxCount then (count, None, Suc calls) else (count, None, calls))"
| "getItemCount_loop (r # it) maxCount count calls =
     (if count < maxCount then
        (case r of
           NextError err \<Rightarrow>
             if Contains (message err) ''bucket doesn't exist'' then (0, None, Suc calls)
             else (count, Some err, Suc calls)
         | NextObject \<Rightarrow> getItemCount_loop it maxCount (count + 1) (Suc calls))
      else (count, None, calls))"

definition getItemCount_run :: "gcsScaler \<Rightarrow> int \<Rightarrow> int \<times> error option \<times> nat" where
  "getItemCount_run s maxCount =
    (case attrSelection (bucket s) of
       Some err \<Rightarrow> (0, Some err, 0)
     | None \<Rightarrow> getItemCount_loop (Objects (bucket s)) maxCount 0 0)"

text \<open>getItemCount (lines 188-217): the count and the error.\<close>

definition getItemCount :: "gcsScaler \<Rightarrow> int \<Rightarrow> int \<times> error option" where
  "getItemCount s maxCount = (fst (getItemCount_run s maxCount), fst (snd (getItemCount_run s maxCount)))"

text \<open>The number of objects and errors the call above asked the iterator for.\<close>

definition getItemCount_calls :: "gcsScaler \<Rightarrow> int \<Rightarrow> nat" where
  "getItemCount_calls s maxCount = snd (snd (getItemCount_run s maxCount))"

text \<open>IsActive (lines 143-150).\<close>

definition gcsScaler_IsActive :: "gcsScaler \<Rightarrow> bool \<times> error option" where
  "gcsScaler_IsActive s =
    (case getItemCount s 1 of
       (items, Some err) \<Rightarrow> (False, Some err)
     | (items, None) \<Rightarrow> (items > 0, None))"

text \<open>GetMetrics (lines 172-185); \<open>now\<close> is the reading of \<^verbatim>\<open>metav1.Now()\<close>.\<close>

definition gcsScaler_GetMetrics :: "gcsScaler \<Rightarrow> int \<Rightarrow> string \<Rightarrow> ExternalMetricValue list \<times> error option" where
  "gcsScaler_GetMetrics s now name =
    (case getItemCount s (maxBucketItemsToScan (metadata s)) of
       (items, Some err) \<Rightarrow> ([], Some err)
     | (items, None) \<Rightarrow> ([\<lparr> MetricName = name, Value = items, Timestamp = now \<rparr>], None))"


section \<open>The PredictKube scaler (predictkube\_scaler.go)\<close>

subsection \<open>Numbers\<close>

text \<open>
  A \<^verbatim>\<open>float64\<close> is a finite value, an infinity or a NaN.  Every finite double is
  a real number; the theorems below quantify over all reals, the doubles among them.
\<close>

datatype float64 = Finite real | PosInf | NegInf | NaN

definition toward_zero :: "real \<Rightarrow> int" where
  "toward_zero r = (if 0 \<le> r then \<lfloor>r\<rfloor> else \<lceil>r\<rceil>)"

text \<open>
  The conversion \<^verbatim>\<open>int64(f)\<close> discards the fraction.  When the result does not
  fit, or \<open>f\<close> is not finite, Go leaves the value to the implementation: it is the
  parameter \<open>other\<close>.  \<^verbatim>\<open>uint64(f)\<close> likewise.
\<close>

definition int64_of_float64 :: "(float64 \<Rightarrow> int) \<Rightarrow> float64 \<Rightarrow> int" where
  "int64_of_float64 other f =
    (case f of
       Finite r \<Rightarrow> if in_int64 (toward_zero r) then toward_zero r else other f
     | _ \<Rightarrow> other f)"

definition uint64_of_float64 :: "(float64 \<Rightarrow> int) \<Rightarrow> float64 \<Rightarrow> int" where
  "uint64_of_float64 other f =
    (case f of
       Finite r \<Rightarrow> if 0 \<le> toward_zero r \<and> toward_zero r \<le> maxUint64 then toward_zero r else other f
     | _ \<Rightarrow> other f)"

text \<open>
  \<^verbatim>\<open>float64(n)\<close> for an int64: exact below \<open>2^53\<close>; above, the nearest
  multiple of the unit in the last of 53 binary places, ties to the even one.
\<close>

definition float64_of_int64 :: "int \<Rightarrow> float64" where
  "float64_of_int64 n =
    (if \<bar>n\<bar> < 2 ^ 53 then Finite (of_int n)
     else
       (let u = 2 ^ nat (bitlen \<bar>n\<bar> - 53);
            q = \<bar>n\<bar> div u;
            r = \<bar>n\<bar> mod u;
            m = (if 2 * r < u \<or> (2 * r = u \<and> even q) then q else q + 1)
        in Finite (of_int (sgn n * (m * u)))))"

text \<open>\<^verbatim>\<open>math.Round\<close>: the nearest integer, halves away from zero.\<close>

definition math_Round :: "float64 \<Rightarrow> float64" where
  "math_Round f =
    (case f of
       Finite r \<Rightarrow> Finite (of_int (if 0 \<le> r then \<lfloor>r + 1 / 2\<rfloor> else \<lceil>r - 1 / 2\<rceil>))
     | _ \<Rightarrow> f)"

text \<open>
  The quotient of two int64, as Go computes it: towards zero, and wrapping in the one case
  that leaves the range (the least int64 by \<open>-1\<close>).  Go panics on a zero divisor; the one
  division of this file runs after doQuery has replaced a zero step (see
  \<open>doQuery_step_nonzero\<close> below).
\<close>

definition wrap_int64 :: "int \<Rightarrow> int" where
  "wrap_int64 n = (n + 2 ^ 63) mod 2 ^ 64 - 2 ^ 63"

definition int64_quo :: "int \<Rightarrow> int \<Rightarrow> int" where
  "int64_quo a b = wrap_int64 (a sdiv b)"

subsection \<open>Data\<close>

definition predictKubeMetricPrefix :: string where
  "predictKubeMetricPrefix = ''predictkube_metric''"

definition invalidMetricTypeErr :: string where
  "invalidMetricTypeErr = ''metric type is invalid''"

text \<open>\<^verbatim>\<open>time.Minute * 5\<close>, in nanoseconds as every \<^verbatim>\<open>time.Duration\<close>.\<close>

definition minute :: int where
  "minute = 60 * 1000000000"

definition defaultStep :: int where
  "defaultStep = minute * 5"

record 'auth predictKubeMetadata =
  predictHorizon :: int
  historyTimeWindow :: int
  stepDuration :: int
  apiKey :: string
  prometheusAddress :: string
  prometheusAuth :: 'auth
  query :: string
  threshold :: int
  scalerIndex :: int

record 'auth PredictKubeScaler =
  pk_metricType :: MetricTargetType
  pk_metadata :: "'auth predictKubeMetadata"

text \<open>
  The result of a Prometheus query (package \<^verbatim>\<open>model\<close>): \<^verbatim>\<open>Vector\<close>,
  \<^verbatim>\<open>Matrix\<close>, \<^verbatim>\<open>*Scalar\<close> and \<^verbatim>\<open>*String\<close>, whose
  \<^verbatim>\<open>Type()\<close> is the matching \<^verbatim>\<open>ValueType\<close>, and any other implementation of
  the interface \<^verbatim>\<open>model.Value\<close>, known by what its \<^verbatim>\<open>Type()\<close> returns.
  Timestamps are \<^verbatim>\<open>model.Time\<close> (milliseconds); the labels of a sample, which this
  code does not read, are left out.
\<close>

datatype Sample = Sample (Sample_Timestamp: int) (Sample_Value: float64)

datatype SamplePair = SamplePair (SamplePair_Timestamp: int) (SamplePair_Value: float64)

datatype SampleStream = SampleStream (Values: "SamplePair list")

text \<open>\<open>ValNone\<close> stands for every \<^verbatim>\<open>ValueType\<close> that is none of the four others.\<close>

datatype ValueType = ValNone | ValScalar | ValVector | ValMatrix | ValString

datatype model_Value =
    model_Vector "Sample list"
  | model_Matrix "SampleStream list"
  | model_Scalar int float64
  | model_String int string
  | model_Other ValueType

fun Value_Type :: "model_Value \<Rightarrow> ValueType" where
  "Value_Type (model_Vector res) = ValVector"
| "Value_Type (model_Matrix res) = ValMatrix"
| "Value_Type (model_Scalar t v) = ValScalar"
| "Value_Type (model_String t str) = ValString"
| "Value_Type (model_Other ty) = ty"

record pbTimestamp =
  Seconds :: int
  Nanos :: int

text \<open>\<^verbatim>\<open>commonproto.Item\<close>, one observation sent to the forecasting service.\<close>

datatype Item = Item (Item_Timestamp: pbTimestamp) (Item_Value: float64) (Item_MetricName: string)

record Range =
  Range_Start :: int
  Range_End :: int
  Range_Step :: int

record ReqGetPredictMetric =
  ForecastHorizon :: int
  Observations :: "Item list"

datatype ServingStatus = UNKNOWN | SERVING | NOT_SERVING | SERVICE_UNKNOWN

text \<open>
  The libraries and remote services of this scaler, as parameters.  \<open>HealthCheck\<close> is the
  pair \<^verbatim>\<open>(resp, err)\<close> that \<^verbatim>\<open>s.healthClient.Check\<close> returns, \<open>time_Now\<close> the
  clock, \<open>Runtimeinfo\<close> and \<open>grpc_Dial\<close> what the Prometheus server and the dialling
  answer, and the last two fields what the platform makes of a \<^verbatim>\<open>float64\<close> that
  \<^verbatim>\<open>int64\<close> or \<^verbatim>\<open>uint64\<close> cannot represent.
\<close>

record 'auth pk_externals = scalers_externals +
  validate_Var :: "string \<Rightarrow> string \<Rightarrow> error option"
  ParseDuration :: "string \<Rightarrow> error + int"
  GetAuthConfigs :: "(string \<rightharpoonup> string) \<Rightarrow> (string \<rightharpoonup> string) \<Rightarrow> error + 'auth"
  CreateHTTPRoundTripper :: "'auth \<Rightarrow> error option"
  api_NewClient :: "string \<Rightarrow> error option"
  Runtimeinfo :: "error option"
  SetGrpcClientOptions :: "string \<Rightarrow> error option"
  grpc_Dial :: "error option"
  time_Now :: int
  QueryRange :: "string \<Rightarrow> Range \<Rightarrow> error + model_Value"
  AdaptTimeToPbTimestamp :: "int \<Rightarrow> error + pbTimestamp"
  ParseFloat :: "string \<Rightarrow> error + float64"
  GetPredictMetric :: "ReqGetPredictMetric \<Rightarrow> error + int"
  HealthCheck :: "ServingStatus option \<times> error option"
  status_Code :: "error \<Rightarrow> string"
  int64_unrepresentable :: "float64 \<Rightarrow> int"
  uint64_unrepresentable :: "float64 \<Rightarrow> int"

subsection \<open>Metadata and construction\<close>

text \<open>parsePredictKubeMetadata (lines 377-458).\<close>

definition parsePredictKubeMetadata ::
  "'auth pk_externals \<Rightarrow> ScalerConfig \<Rightarrow> error + 'auth predictKubeMetadata" where
  "parsePredictKubeMetadata ext config =
    (case TriggerMetadata config ''query'' of
       None \<Rightarrow> Inl (Error ''no query given'')
     | Some q \<Rightarrow>
    if length q = 0 then Inl (Error ''no query given'') else
    (case TriggerMetadata config ''prometheusAddress'' of
       None \<Rightarrow> Inl (Error ''no prometheusAddress given'')
     | Some addr \<Rightarrow>
    (case validate_Var ext addr ''url'' of
       Some err \<Rightarrow> Inl (Error ''invalid prometheusAddress'')
     | None \<Rightarrow>
    (case TriggerMetadata config ''predictHorizon'' of
       None \<Rightarrow> Inl (Error ''no predictHorizon given'')
     | Some ph \<Rightarrow>
    (case ParseDuration ext ph of
       Inl err \<Rightarrow> Inl (Error (''predictHorizon parsing error '' @ message err))
     | Inr horizon \<Rightarrow>
    (case TriggerMetadata config ''queryStep'' of
       None \<Rightarrow> Inl (Error ''no queryStep given'')
     | Some qs \<Rightarrow>
    (case ParseDuration ext qs of
       Inl err \<Rightarrow> Inl (Error (''queryStep parsing error '' @ message err))
     | Inr step \<Rightarrow>
    (case TriggerMetadata config ''historyTimeWindow'' of
       None \<Rightarrow> Inl (Error ''no historyTimeWindow given'')
     | Some hw \<Rightarrow>
    (case ParseDuration ext hw of
       Inl err \<Rightarrow> Inl (Error (''historyTimeWindow parsing error '' @ message err))
     | Inr window \<Rightarrow>
    (case TriggerMetadata config ''threshold'' of
       None \<Rightarrow> Inl (Error ''no threshold given'')
     | Some th \<Rightarrow>
    (case ParseInt ext th of
       Inl err \<Rightarrow> Inl (Error (''threshold parsing error '' @ message err))
     | Inr thr \<Rightarrow>
    (case AuthParams config ''apiKey'' of
       None \<Rightarrow> Inl (Error ''no api key given'')
     | Some k \<Rightarrow>
    (case validate_Var ext k ''jwt'' of
       Some err \<Rightarrow> Inl (Error ''invalid apiKey'')
     | None \<Rightarrow>
    (case GetAuthConfigs ext (TriggerMetadata config) (AuthParams config) of
       Inl err \<Rightarrow> Inl err
     | Inr auth \<Rightarrow>
         Inr \<lparr> predictHorizon = horizon,
               historyTimeWindow = window,
               stepDuration = step,
               apiKey = k,
               prometheusAddress = addr,
               prometheusAuth = auth,
               query = q,
               threshold = thr,
               scalerIndex = ScalerConfig.ScalerIndex config \<rparr>))))))))))))))"

text \<open>
  initPredictKubePrometheusConn (lines 466-488): the transport, the client object, then
  \<^verbatim>\<open>ping\<close>, the first request to the Prometheus server.
\<close>

definition initPredictKubePrometheusConn ::
  "'auth pk_externals \<Rightarrow> 'auth predictKubeMetadata \<Rightarrow> error option \<times> conn_event list" where
  "initPredictKubePrometheusConn ext meta =
    (case CreateHTTPRoundTripper ext (prometheusAuth meta) of
       Some err \<Rightarrow> (Some err, [])
     | None \<Rightarrow>
        (case api_NewClient ext (prometheusAddress meta) of
           Some err \<Rightarrow> (Some err, [])
         | None \<Rightarrow> (Runtimeinfo ext, [PrometheusPing])))"

text \<open>setupClientConn (lines 103-140): the client options, then \<^verbatim>\<open>grpc.Dial\<close>.\<close>

definition setupClientConn ::
  "'auth pk_externals \<Rightarrow> 'auth predictKubeMetadata \<Rightarrow> error option \<times> conn_event list" where
  "setupClientConn ext meta =
    (case SetGrpcClientOptions ext (apiKey meta) of
       Some err \<Rightarrow> (Some err, [])
     | None \<Rightarrow> (grpc_Dial ext, [GrpcDial]))"

text \<open>The verb \<^verbatim>\<open>%3s\<close>: the text, padded on the left to three characters.\<close>

definition fmt_3s :: "string \<Rightarrow> string" where
  "fmt_3s s = replicate (3 - length s) CHR '' '' @ s"

text \<open>NewPredictKubeScaler (lines 143-175), with the connections made, in order.\<close>

definition NewPredictKubeScaler ::
  "'auth pk_externals \<Rightarrow> ScalerConfig \<Rightarrow> (error + 'auth PredictKubeScaler) \<times> conn_event list" where
  "NewPredictKubeScaler ext config =
    (case GetMetricTargetType ext config of
       Inl err \<Rightarrow> (Inl (Error (''error getting scaler metric type: '' @ message err)), [])
     | Inr mt \<Rightarrow>
    (case parsePredictKubeMetadata ext config of
       Inl err \<Rightarrow> (Inl (Error (''error parsing PredictKube metadata: '' @ fmt_3s (message err))), [])
     | Inr meta \<Rightarrow>
    (case initPredictKubePrometheusConn ext meta of
       (Some err, ev) \<Rightarrow>
         (Inl (Error (''error create Prometheus client and API objects: '' @ fmt_3s (message err))), ev)
     | (None, ev) \<Rightarrow>
    (case setupClientConn ext meta of
       (Some err, ev') \<Rightarrow> (Inl (Error (''error init GRPC client: '' @ fmt_3s (message err))), ev @ ev')
     | (None, ev') \<Rightarrow> (Inr \<lparr> pk_metricType = mt, pk_metadata = meta \<rparr>, ev @ ev')))))"

subsection \<open>Queries\<close>

text \<open>
  The methods below read their receiver \<^verbatim>\<open>s\<close> through \<^verbatim>\<open>s.metadata\<close> and
  through its clients, which are among the parameters: they take the metadata, and return it
  where doQuery may have changed it.  A nil slice and an empty slice are both the empty list.
\<close>

text \<open>
  The loops of parsePrometheusResult (lines 309-320 and 324-337), each from the
  observations gathered so far.
\<close>

fun parse_vector :: "(int \<Rightarrow> error + pbTimestamp) \<Rightarrow> string \<Rightarrow> Sample list \<Rightarrow> Item list \<Rightarrow> error + Item list" where
  "parse_vector adapt name [] out = Inr out"
| "parse_vector adapt name (val # res) out =
     (case adapt (Sample_Timestamp val) of
        Inl err \<Rightarrow> Inl err
      | Inr t \<Rightarrow> parse_vector adapt name res (out @ [Item t (Sample_Value val) name]))"

fun parse_stream :: "(int \<Rightarrow> error + pbTimestamp) \<Rightarrow> string \<Rightarrow> SamplePair list \<Rightarrow> Item list \<Rightarrow> error + Item list" where
  "parse_stream adapt name [] out = Inr out"
| "parse_stream adapt name (v # vs) out =
     (case adapt (SamplePair_Timestamp v) of
        Inl err \<Rightarrow> Inl err
      | Inr t \<Rightarrow> parse_stream adapt name vs (out @ [Item t (SamplePair_Value v) name]))"

fun parse_matrix :: "(int \<Rightarrow> error + pbTimestamp) \<Rightarrow> string \<Rightarrow> SampleStream list \<Rightarrow> Item list \<Rightarrow> error + Item list" where
  "parse_matrix adapt name [] out = Inr out"
| "parse_matrix adapt name (val # res) out =
     (case parse_stream adapt name (Values val) out of
        Inl err \<Rightarrow> Inl err
      | Inr out' \<Rightarrow> parse_matrix adapt name res out')"

text \<open>
  parsePrometheusResult (lines 304-375).  A type assertion that fails leaves \<open>out\<close> nil,
  and the function returns it with no error.
\<close>

definition parsePrometheusResult ::
  "'auth pk_externals \<Rightarrow> 'auth predictKubeMetadata \<Rightarrow> model_Value \<Rightarrow> error + Item list" where
  "parsePrometheusResult ext meta result =
    (let name = GenerateMetricNameWithIndex ext (scalerIndex meta)
                  (NormalizeString ext (''predictkube-'' @ predictKubeMetricPrefix))
     in case Value_Type result of
          ValVector \<Rightarrow>
            (case result of
               model_Vector res \<Rightarrow> parse_vector (AdaptTimeToPbTimestamp ext) name res []
             | _ \<Rightarrow> Inr [])
        | ValMatrix \<Rightarrow>
            (case result of
               model_Matrix res \<Rightarrow> parse_matrix (AdaptTimeToPbTimestamp ext) name res []
             | _ \<Rightarrow> Inr [])
        | ValScalar \<Rightarrow>
            (case result of
               model_Scalar ts v \<Rightarrow>
                 (case AdaptTimeToPbTimestamp ext ts of
                    Inl err \<Rightarrow> Inl err
                  | Inr t \<Rightarrow> Inr [Item t v name])
             | _ \<Rightarrow> Inr [])
        | ValString \<Rightarrow>
            (case result of
               model_String ts str \<Rightarrow>
                 (case AdaptTimeToPbTimestamp ext ts of
                    Inl err \<Rightarrow> Inl err
                  | Inr t \<Rightarrow>
                      (case ParseFloat ext str of
                         Inl err \<Rightarrow> Inl err
                       | Inr s \<Rightarrow> Inr [Item t s name]))
             | _ \<Rightarrow> Inr [])
        | ValNone \<Rightarrow> Inl (Error invalidMetricTypeErr))"

text \<open>
  doQuery (lines 277-301).  It writes the default step into the metadata, which the scaler
  keeps: the metadata is returned with the result.
\<close>

definition doQuery ::
  "'auth pk_externals \<Rightarrow> 'auth predictKubeMetadata \<Rightarrow> 'auth predictKubeMetadata \<times> (error + Item list)" where
  "doQuery ext meta =
    (let currentTime = time_Now ext;
         meta' = (if stepDuration meta = 0 then meta\<lparr>stepDuration := defaultStep\<rparr> else meta);
         r = \<lparr> Range_Start = currentTime - historyTimeWindow meta',
               Range_End = currentTime,
               Range_Step = stepDuration meta' \<rparr>
     in case QueryRange ext (query meta') r of
          Inl err \<Rightarrow> (meta', Inl err)
        | Inr val \<Rightarrow> (meta', parsePrometheusResult ext meta' val))"

text \<open>The request of doPredictRequest (lines 253-256).\<close>

definition predictRequest ::
  "'auth pk_externals \<Rightarrow> 'auth predictKubeMetadata \<Rightarrow> Item list \<Rightarrow> ReqGetPredictMetric" where
  "predictRequest ext meta results =
    \<lparr> ForecastHorizon =
        uint64_of_float64 (uint64_unrepresentable ext)
          (math_Round (float64_of_int64 (int64_quo (predictHorizon meta) (stepDuration meta)))),
      Observations = results \<rparr>"

text \<open>The last observation as an int64, zero when there is none (lines 262-265 and 194-197).\<close>

definition lastObserved :: "'auth pk_externals \<Rightarrow> Item list \<Rightarrow> int" where
  "lastObserved ext results =
    (if length results > 0
     then int64_of_float64 (int64_unrepresentable ext) (Item_Value (results ! (length results - 1)))
     else 0)"

text \<open>doPredictRequest (lines 247-275).\<close>

definition doPredictRequest ::
  "'auth pk_externals \<Rightarrow> 'auth predictKubeMetadata \<Rightarrow> 'auth predictKubeMetadata \<times> (int \<times> error option)" where
  "doPredictRequest ext meta =
    (case doQuery ext meta of
       (meta', Inl err) \<Rightarrow> (meta', (0, Some err))
     | (meta', Inr results) \<Rightarrow>
        (case GetPredictMetric ext (predictRequest ext meta' results) of
           Inl err \<Rightarrow> (meta', (0, Some err))
         | Inr x \<Rightarrow>
            (let y = lastObserved ext results
             in (meta', (if x < y then y else x, None)))))"

text \<open>GetMetrics (lines 221-245); \<open>now\<close> is the reading of \<^verbatim>\<open>metav1.Now()\<close>.\<close>

definition PredictKubeScaler_GetMetrics ::
  "'auth pk_externals \<Rightarrow> 'auth predictKubeMetadata \<Rightarrow> int \<Rightarrow> string \<Rightarrow>
     'auth predictKubeMetadata \<times> (ExternalMetricValue list \<times> error option)" where
  "PredictKubeScaler_GetMetrics ext meta now name =
    (case doPredictRequest ext meta of
       (meta', (v, Some err)) \<Rightarrow> (meta', ([], Some err))
     | (meta', (v, None)) \<Rightarrow>
         if v = 0 then (meta', ([], Some (Error ''empty response after predict request'')))
         else (meta', ([\<lparr> MetricName = name, Value = v, Timestamp = now \<rparr>], None)))"

text \<open>IsActive (lines 178-200); \<^verbatim>\<open>codes.Unknown\<close> prints as \<^verbatim>\<open>Unknown\<close>.\<close>

definition PredictKubeScaler_IsActive ::
  "'auth pk_externals \<Rightarrow> 'auth predictKubeMetadata \<Rightarrow> 'auth predictKubeMetadata \<times> (bool \<times> error option)" where
  "PredictKubeScaler_IsActive ext meta =
    (case doQuery ext meta of
       (meta', Inl err) \<Rightarrow> (meta', (False, Some err))
     | (meta', Inr results) \<Rightarrow>
        (case HealthCheck ext of
           (None, err) \<Rightarrow>
             (meta', (length results > 0,
                Some (Error (''can't connect grpc server: empty server response, code: '' @ ''Unknown''))))
         | (Some resp, Some err) \<Rightarrow>
             (meta', (length results > 0,
                Some (Error (''can't connect grpc server: '' @ message err @ '', code: '' @ status_Code ext err))))
         | (Some resp, None) \<Rightarrow> (meta', (lastObserved ext results > 0, None))))"

section \<open>Concrete configurations and backends\<close>

text \<open>
  A reader of decimal integers in the manner of \<^verbatim>\<open>strconv.ParseInt(s, 10, 64)\<close>: an
  optional sign, then one or more decimal digits, and a result in the int64 range.  It stands
  for the library function wherever a concrete one is needed.
\<close>

definition digit_of :: "char \<Rightarrow> nat option" where
  "digit_of c = map_of (zip ''0123456789'' [0, 1, 2, 3, 4, 5, 6, 7, 8, 9]) c"

fun digits_of :: "string \<Rightarrow> nat \<Rightarrow> nat option" where
  "digits_of [] acc = Some acc"
| "digits_of (c # cs) acc =
     (case digit_of c of None \<Rightarrow> None | Some d \<Rightarrow> digits_of cs (10 * acc + d))"

definition decimal_int :: "string \<Rightarrow> error + int" where
  "decimal_int s =
    (let neg = (s \<noteq> [] \<and> hd s = CHR ''-'');
         ds = (if s \<noteq> [] \<and> (hd s = CHR ''-'' \<or> hd s = CHR ''+'') then tl s else s)
     in if ds = [] then Inl (Error ''invalid syntax'')
        else (case digits_of ds 0 of
                None \<Rightarrow> Inl (Error ''invalid syntax'')
              | Some n \<Rightarrow>
                  if in_int64 (if neg then - int n else int n)
                  then Inr (if neg then - int n else int n)
                  else Inl (Error ''value out of range'')))"

text \<open>A scaler over a bucket whose listing yields the given results, with the given scan bound.\<close>

definition workload_identity :: gcpAuthorizationMetadata where
  "workload_identity =
    \<lparr> GoogleApplicationCredentials = [],
      GoogleApplicationCredentialsFile = [],
      podIdentityProviderEnabled = True \<rparr>"

definition gcs_scaler_over :: "next_result list \<Rightarrow> int \<Rightarrow> gcsScaler" where
  "gcs_scaler_over results mx =
    \<lparr> bucket = \<lparr> attrSelection = None, Objects = results \<rparr>,
      metricType = AverageValueMetricType,
      metadata = \<lparr> bucketName = ''jobs'',
                   gcpAuthorization = workload_identity,
                   maxBucketItemsToScan = mx,
                   metricName = ''s0-gcp-storage-jobs'',
                   targetObjectCount = defaultTargetObjectCount \<rparr> \<rparr>"

text \<open>Libraries that accept every configuration and open an empty bucket.\<close>

definition gcs_libraries :: gcs_externals where
  "gcs_libraries =
    \<lparr> GetMetricTargetType = (\<lambda>c. Inr AverageValueMetricType),
      ParseInt = decimal_int,
      NormalizeString = (\<lambda>s. s),
      GenerateMetricNameWithIndex = (\<lambda>i s. ''s0-'' @ s),
      getGcpAuthorization = (\<lambda>c env. Inr workload_identity),
      Atoi = decimal_int,
      NewClient = (\<lambda>opt. Inr (\<lambda>b. Some \<lparr> attrSelection = None, Objects = [] \<rparr>)) \<rparr>"

definition config_of :: "(string \<times> string) list \<Rightarrow> (string \<times> string) list \<Rightarrow> ScalerConfig" where
  "config_of md auth =
    \<lparr> TriggerMetadata = map_of md, AuthParams = map_of auth, ResolvedEnv = Map.empty,
      ScalerIndex = 0, MetricType = [] \<rparr>"

text \<open>
  Stand-ins for the libraries and services of the PredictKube scaler: a Prometheus server
  that answers every range query with \<open>answer\<close>, a forecasting service that answers
  every request with \<open>prediction\<close>, and a health service that answers \<open>health\<close>.
  Durations are read as whole minutes (\<^verbatim>\<open>10m\<close>), validation refuses the empty text
  and an address that does not start with \<^verbatim>\<open>http\<close>, and a timestamp in milliseconds is
  split into seconds and nanoseconds.
\<close>

definition minutes_duration :: "string \<Rightarrow> error + int" where
  "minutes_duration s =
    (if s \<noteq> [] \<and> last s = CHR ''m''
     then (case decimal_int (butlast s) of Inl err \<Rightarrow> Inl err | Inr n \<Rightarrow> Inr (n * minute))
     else Inl (Error ''unknown unit''))"

definition decimal_float :: "string \<Rightarrow> error + float64" where
  "decimal_float s = (case decimal_int s of Inl err \<Rightarrow> Inl err | Inr n \<Rightarrow> Inr (Finite (of_int n)))"

definition millis_to_pb :: "int \<Rightarrow> error + pbTimestamp" where
  "millis_to_pb t = Inr \<lparr> Seconds = t div 1000, Nanos = (t mod 1000) * 1000000 \<rparr>"

definition plain_validator :: "string \<Rightarrow> string \<Rightarrow> error option" where
  "plain_validator v tag =
    (if v = [] \<or> (tag = ''url'' \<and> \<not> HasPrefix v ''http'')
     then Some (Error (''failed on the tag '' @ tag))
     else None)"

definition pk_services ::
  "error + model_Value \<Rightarrow> error + int \<Rightarrow> ServingStatus option \<times> error option \<Rightarrow> unit pk_externals" where
  "pk_services answer prediction health =
    \<lparr> GetMetricTargetType = (\<lambda>c. Inr AverageValueMetricType),
      ParseInt = decimal_int,
      NormalizeString = (\<lambda>s. s),
      GenerateMetricNameWithIndex = (\<lambda>i s. ''s0-'' @ s),
      validate_Var = plain_validator,
      ParseDuration = minutes_duration,
      GetAuthConfigs = (\<lambda>md auth. Inr ()),
      CreateHTTPRoundTripper = (\<lambda>auth. None),
      api_NewClient = (\<lambda>addr. None),
      Runtimeinfo = None,
      SetGrpcClientOptions = (\<lambda>k. None),
      grpc_Dial = None,
      time_Now = 1700000000000000000,
      QueryRange = (\<lambda>q r. answer),
      AdaptTimeToPbTimestamp = millis_to_pb,
      ParseFloat = decimal_float,
      GetPredictMetric = (\<lambda>req. prediction),
      HealthCheck = health,
      status_Code = (\<lambda>err. ''Unavailable''),
      int64_unrepresentable = (\<lambda>f. minInt64),
      uint64_unrepresentable = (\<lambda>f. 2 ^ 63) \<rparr>"

definition pk_metadata_of :: "int \<Rightarrow> int \<Rightarrow> unit predictKubeMetadata" where
  "pk_metadata_of horizon step =
    \<lparr> predictHorizon = horizon,
      historyTimeWindow = 10080 * minute,
      stepDuration = step,
      apiKey = ''a.b.c'',
      prometheusAddress = ''http://prometheus:9090'',
      prometheusAuth = (),
      query = ''sum(rate(http_requests_total[2m]))'',
      threshold = 100,
      scalerIndex = 0 \<rparr>"

text \<open>
  The checks of parsePredictKubeMetadata that a configuration passes, one predicate for each
  field read before the last: the field is present and the code accepts its text.
\<close>

definition query_given :: "ScalerConfig \<Rightarrow> bool" where
  "query_given config =
    (case TriggerMetadata config ''query'' of None \<Rightarrow> False | Some q \<Rightarrow> q \<noteq> [])"

definition address_valid :: "'auth pk_externals \<Rightarrow> ScalerConfig \<Rightarrow> bool" where
  "address_valid ext config =
    (case TriggerMetadata config ''prometheusAddress'' of
       None \<Rightarrow> False
     | Some addr \<Rightarrow> validate_Var ext addr ''url'' = None)"

definition duration_valid :: "'auth pk_externals \<Rightarrow> ScalerConfig \<Rightarrow> string \<Rightarrow> bool" where
  "duration_valid ext config field =
    (case TriggerMetadata config field of
       None \<Rightarrow> False
     | Some v \<Rightarrow> \<not> isl (ParseDuration ext v))"

definition threshold_valid :: "'auth pk_externals \<Rightarrow> ScalerConfig \<Rightarrow> bool" where
  "threshold_valid ext config =
    (case TriggerMetadata config ''threshold'' of
       None \<Rightarrow> False
     | Some v \<Rightarrow> \<not> isl (ParseInt ext v))"

section \<open>Evaluation of the stand-ins\<close>

lemmas int64_range = in_int64_def minInt64_def maxInt64_def

lemmas decimal_eval = decimal_int_def digit_of_def int64_range

lemma decimal_int_examples:
  "decimal_int ''-5'' = Inr (- 5)" "decimal_int ''0'' = Inr 0" "decimal_int ''100'' = Inr 100"
  "decimal_int ''many'' = Inl (Error ''invalid syntax'')"
  by (simp_all add: decimal_eval)

text \<open>\<open>Contains\<close> is the contiguous-sublist relation of the library.\<close>

lemma HasPrefix_prefix: "HasPrefix s p \<longleftrightarrow> prefix p s"
  by (induction s p rule: HasPrefix.induct) auto

lemma Contains_sublist: "Contains s substr \<longleftrightarrow> sublist substr s"
  by (induction s) (simp_all add: HasPrefix_prefix sublist_Cons_right)


section \<open>The bounded object counter\<close>

lemma getItemCount_loop_done:
  "maxCount \<le> count \<Longrightarrow> getItemCount_loop it maxCount count calls = (count, None, calls)"
  by (cases it) auto

lemma getItemCount_loop_range:
  "0 \<le> count \<Longrightarrow> count \<le> maxCount \<Longrightarrow>
     0 \<le> fst (getItemCount_loop it maxCount count calls) \<and>
     fst (getItemCount_loop it maxCount count calls) \<le> maxCount"
proof (induction it arbitrary: count calls)
  case Nil
  then show ?case by simp
next
  case (Cons r it)
  show ?case
  proof (cases "count < maxCount")
    case False
    with Cons.prems show ?thesis by simp
  next
    case below: True
    show ?thesis
    proof (cases r)
      case NextObject
      have "0 \<le> count + 1" "count + 1 \<le> maxCount"
        using Cons.prems below by simp_all
      from Cons.IH[OF this] show ?thesis
        using below NextObject by simp
    next
      case (NextError err)
      then show ?thesis
        using below Cons.prems by simp
    qed
  qed
qed

text \<open>The running count stays an int64 when the bound is one: \<^verbatim>\<open>count++\<close> never wraps.\<close>

lemma getItemCount_loop_int64:
  assumes "in_int64 maxCount"
  shows "in_int64 (fst (getItemCount_loop it maxCount 0 0))"
proof (cases "0 \<le> maxCount")
  case True
  then show ?thesis
    using getItemCount_loop_range[of 0 maxCount it 0] assms by (simp add: int64_range)
next
  case False
  then show ?thesis
    by (simp add: getItemCount_loop_done int64_range)
qed

lemma getItemCount_loop_objects:
  "count + int k \<le> maxCount \<Longrightarrow>
   getItemCount_loop (replicate k NextObject @ rest) maxCount count calls =
   getItemCount_loop rest maxCount (count + int k) (calls + k)"
proof (induction k arbitrary: count calls)
  case 0
  show ?case by simp
next
  case (Suc k)
  have below: "count < maxCount"
    using Suc.prems by simp
  have "(count + 1) + int k \<le> maxCount"
    using Suc.prems by simp
  from Suc.IH[OF this, of "Suc calls"] show ?case
    using below by (simp add: ac_simps)
qed

lemma getItemCount_loop_error:
  "count + int k < maxCount \<Longrightarrow>
   getItemCount_loop (replicate k NextObject @ NextError err # rest) maxCount count calls =
     (if Contains (message err) ''bucket doesn't exist'' then (0, None, Suc (calls + k))
      else (count + int k, Some err, Suc (calls + k)))"
  using getItemCount_loop_objects[of count k maxCount "NextError err # rest" calls] by simp

lemma getItemCount_nonpositive:
  "maxCount \<le> 0 \<Longrightarrow> attrSelection (bucket s) = None \<Longrightarrow>
     getItemCount s maxCount = (0, None) \<and> getItemCount_calls s maxCount = 0"
  by (simp add: getItemCount_def getItemCount_calls_def getItemCount_run_def getItemCount_loop_done)

lemma getItemCount_one:
  "attrSelection (bucket s) = None \<Longrightarrow>
   getItemCount s 1 =
     (case Objects (bucket s) of
        [] \<Rightarrow> (0, None)
      | NextObject # rest \<Rightarrow> (1, None)
      | NextError err # rest \<Rightarrow>
          if Contains (message err) ''bucket doesn't exist'' then (0, None) else (0, Some err))"
  by (simp add: getItemCount_def getItemCount_run_def getItemCount_loop_done
      split: list.splits next_result.splits)

text \<open>
  C5, as the code has it.  The claim, for every scan bound, fails at a negative bound: the
  count returned is 0, which exceeds the bound.
\<close>

theorem getItemCount_negative_bound_counterexample:
  "getItemCount (gcs_scaler_over [] (- 1)) (- 1) = (0, None) \<and>
   \<not> fst (getItemCount (gcs_scaler_over [] (- 1)) (- 1)) \<le> - 1"
  by (simp add: getItemCount_def getItemCount_run_def gcs_scaler_over_def)

text \<open>
  C5 (amended): the count returned by getItemCount is never negative and never exceeds the
  larger of the scan bound and zero; for a non-negative bound, when the attribute selection
  succeeds and the first \<open>maxCount\<close> results of the listing are all objects (the bucket holds
  at least that many items), it returns exactly the bound and no error, after exactly
  \<open>maxCount\<close> calls of \<^verbatim>\<open>Next\<close>: it stops as soon as the bound is reached.
\<close>

theorem getItemCount_saturates:
  "0 \<le> fst (getItemCount s maxCount) \<and> fst (getItemCount s maxCount) \<le> max 0 maxCount \<and>
   (0 \<le> maxCount \<and> attrSelection (bucket s) = None \<and>
    take (nat maxCount) (Objects (bucket s)) = replicate (nat maxCount) NextObject \<longrightarrow>
      getItemCount s maxCount = (maxCount, None) \<and> getItemCount_calls s maxCount = nat maxCount)"
proof -
  have rng: "0 \<le> fst (getItemCount s maxCount) \<and> fst (getItemCount s maxCount) \<le> max 0 maxCount"
  proof (cases "attrSelection (bucket s)")
    case (Some err)
    then show ?thesis
      by (simp add: getItemCount_def getItemCount_run_def)
  next
    case sel: None
    show ?thesis
    proof (cases "0 \<le> maxCount")
      case True
      then show ?thesis
        using getItemCount_loop_range[of 0 maxCount "Objects (bucket s)" 0] sel
        by (simp add: getItemCount_def getItemCount_run_def)
    next
      case False
      then show ?thesis
        using sel by (simp add: getItemCount_def getItemCount_run_def getItemCount_loop_done)
    qed
  qed
  have sat: "getItemCount s maxCount = (maxCount, None) \<and> getItemCount_calls s maxCount = nat maxCount"
    if nn: "0 \<le> maxCount" and sel: "attrSelection (bucket s) = None"
      and tk: "take (nat maxCount) (Objects (bucket s)) = replicate (nat maxCount) NextObject"
  proof -
    let ?rest = "drop (nat maxCount) (Objects (bucket s))"
    have split: "Objects (bucket s) = replicate (nat maxCount) NextObject @ ?rest"
      using tk by (metis append_take_drop_id)
    have "getItemCount_loop (Objects (bucket s)) maxCount 0 0
          = getItemCount_loop ?rest maxCount (0 + int (nat maxCount)) (0 + nat maxCount)"
      using getItemCount_loop_objects[of 0 "nat maxCount" maxCount ?rest 0] nn split by simp
    also have "\<dots> = (maxCount, None, nat maxCount)"
      using nn by (simp add: getItemCount_loop_done)
    finally show ?thesis
      using sel by (simp add: getItemCount_def getItemCount_calls_def getItemCount_run_def)
  qed
  show ?thesis
    using rng sat by blast
qed

theorem getItemCount_saturates_witness:
  "fst (getItemCount (gcs_scaler_over (replicate 10 NextObject) 3) 3) \<le> 3 \<and>
   getItemCount (gcs_scaler_over (replicate 10 NextObject) 3) 3 = (3, None) \<and>
   getItemCount_calls (gcs_scaler_over (replicate 10 NextObject) 3) 3 = 3"
proof -
  have sel: "attrSelection (bucket (gcs_scaler_over (replicate 10 NextObject) 3)) = None"
    by (simp add: gcs_scaler_over_def)
  have tk: "take (nat 3) (Objects (bucket (gcs_scaler_over (replicate 10 NextObject) 3)))
              = replicate (nat 3) NextObject"
    by (simp add: gcs_scaler_over_def)
  show ?thesis
    using getItemCount_saturates[of "gcs_scaler_over (replicate 10 NextObject) 3" 3] sel tk
    by simp
qed

text \<open>
  C6: when the attribute selection has succeeded and the listing yields \<open>k\<close> objects and then
  an error, within the scan bound, getItemCount returns a zero count and no error if the
  error's message contains \<^verbatim>\<open>bucket doesn't exist\<close>, and otherwise the count \<open>k\<close>
  reached so far together with that error.
\<close>

theorem getItemCount_enumeration_error:
  "attrSelection (bucket s) = None \<Longrightarrow>
   Objects (bucket s) = replicate k NextObject @ NextError err # rest \<Longrightarrow>
   int k < maxCount \<Longrightarrow>
   getItemCount s maxCount =
     (if Contains (message err) ''bucket doesn't exist'' then (0, None) else (int k, Some err))"
  using getItemCount_loop_error[of 0 k maxCount err rest 0]
  by (simp add: getItemCount_def getItemCount_run_def)

theorem getItemCount_enumeration_error_witness:
  "getItemCount (gcs_scaler_over [NextObject, NextObject, NextError (Error ''googleapi: Error 403: forbidden'')] 5) 5
     = (2, Some (Error ''googleapi: Error 403: forbidden'')) \<and>
   getItemCount (gcs_scaler_over [NextObject, NextObject, NextError (Error ''storage: bucket doesn't exist'')] 5) 5
     = (0, None)"
proof -
  let ?denied = "Error ''googleapi: Error 403: forbidden''"
  let ?gone = "Error ''storage: bucket doesn't exist''"
  have a: "getItemCount (gcs_scaler_over [NextObject, NextObject, NextError ?denied] 5) 5 = (2, Some ?denied)"
    using getItemCount_enumeration_error
      [of "gcs_scaler_over [NextObject, NextObject, NextError ?denied] 5" 2 ?denied "[]" 5]
    by (simp add: gcs_scaler_over_def numeral_2_eq_2)
  have b: "getItemCount (gcs_scaler_over [NextObject, NextObject, NextError ?gone] 5) 5 = (0, None)"
    using getItemCount_enumeration_error
      [of "gcs_scaler_over [NextObject, NextObject, NextError ?gone] 5" 2 ?gone "[]" 5]
    by (simp add: gcs_scaler_over_def numeral_2_eq_2)
  show ?thesis
    using a b by simp
qed

text \<open>
  C9: IsActive of the storage scaler counts with the bound 1.  When the attribute selection
  succeeds, it returns true exactly when the first result of the listing is an object (the
  bucket holds at least one item), after at most one call of \<^verbatim>\<open>Next\<close>; the answer does
  not depend on the metadata (maxBucketItemsToScan, targetObjectCount); and a listing that
  fails with \<^verbatim>\<open>bucket doesn't exist\<close> gives \<open>(False, nil)\<close>.
\<close>

theorem gcsScaler_IsActive_any_item:
  "attrSelection (bucket s) = None \<Longrightarrow>
     (fst (gcsScaler_IsActive s) \<longleftrightarrow> (\<exists>rest. Objects (bucket s) = NextObject # rest)) \<and>
     gcsScaler_IsActive (s\<lparr>metadata := m\<rparr>) = gcsScaler_IsActive s \<and>
     getItemCount_calls s 1 \<le> 1 \<and>
     (\<forall>err rest. Objects (bucket s) = NextError err # rest \<and>
                  Contains (message err) ''bucket doesn't exist'' \<longrightarrow>
                  gcsScaler_IsActive s = (False, None))"
proof -
  assume sel: "attrSelection (bucket s) = None"
  have one: "fst (gcsScaler_IsActive s) \<longleftrightarrow> (\<exists>rest. Objects (bucket s) = NextObject # rest)"
    using getItemCount_one[OF sel]
    by (auto simp: gcsScaler_IsActive_def split: list.splits next_result.splits)
  have indep: "gcsScaler_IsActive (s\<lparr>metadata := m\<rparr>) = gcsScaler_IsActive s"
    by (simp add: gcsScaler_IsActive_def getItemCount_def getItemCount_run_def split: option.splits)
  have calls: "getItemCount_calls s 1 \<le> 1"
  proof (cases "Objects (bucket s)")
    case Nil
    then show ?thesis
      using sel by (simp add: getItemCount_calls_def getItemCount_run_def)
  next
    case (Cons r rest)
    then show ?thesis
      using sel by (cases r) (simp_all add: getItemCount_calls_def getItemCount_run_def getItemCount_loop_done)
  qed
  have gone: "\<forall>err rest. Objects (bucket s) = NextError err # rest \<and>
                  Contains (message err) ''bucket doesn't exist'' \<longrightarrow>
                  gcsScaler_IsActive s = (False, None)"
    using getItemCount_one[OF sel] by (simp add: gcsScaler_IsActive_def)
  show ?thesis
    using one indep calls gone by blast
qed

theorem gcsScaler_IsActive_any_item_witness:
  "fst (gcsScaler_IsActive (gcs_scaler_over [NextObject, NextObject] 1000)) \<and>
   \<not> fst (gcsScaler_IsActive (gcs_scaler_over [] 1000)) \<and>
   gcsScaler_IsActive (gcs_scaler_over [NextError (Error ''storage: bucket doesn't exist'')] 1000) = (False, None)"
proof -
  have a: "fst (gcsScaler_IsActive (gcs_scaler_over [NextObject, NextObject] 1000))"
    using gcsScaler_IsActive_any_item[of "gcs_scaler_over [NextObject, NextObject] 1000"]
    by (simp add: gcs_scaler_over_def)
  have b: "\<not> fst (gcsScaler_IsActive (gcs_scaler_over [] 1000))"
    using gcsScaler_IsActive_any_item[of "gcs_scaler_over [] 1000"]
    by (simp add: gcs_scaler_over_def)
  have c: "gcsScaler_IsActive (gcs_scaler_over [NextError (Error ''storage: bucket doesn't exist'')] 1000)
            = (False, None)"
    using gcsScaler_IsActive_any_item[of "gcs_scaler_over [NextError (Error ''storage: bucket doesn't exist'')] 1000"]
    by (simp add: gcs_scaler_over_def)
  show ?thesis
    using a b c by simp
qed

lemma parseGcsMetadata_bound:
  assumes "TriggerMetadata config ''bucketName'' = Some b" "b \<noteq> []"
    and toc: "\<forall>w. TriggerMetadata config ''targetObjectCount'' = Some w \<longrightarrow> (\<exists>k. ParseInt ext w = Inr k)"
    and "TriggerMetadata config ''maxBucketItemsToScan'' = Some v" "Atoi ext v = Inr n"
    and "getGcpAuthorization ext config (ResolvedEnv config) = Inr auth"
  shows "\<exists>meta. parseGcsMetadata ext config = Inr meta \<and> maxBucketItemsToScan meta = n \<and>
                bucketName meta = b \<and> gcpAuthorization meta = auth"
proof (cases "TriggerMetadata config ''targetObjectCount''")
  case None
  then show ?thesis
    using assms by (simp add: parseGcsMetadata_def)
next
  case (Some w)
  then obtain k where "ParseInt ext w = Inr k"
    using toc by blast
  then show ?thesis
    using assms Some by (simp add: parseGcsMetadata_def)
qed

text \<open>
  C10: parseGcsMetadata takes whatever integer \<^verbatim>\<open>strconv.Atoi\<close> reads from
  maxBucketItemsToScan, of any sign: when the bucket name is present and not empty, the
  optional targetObjectCount is readable and the authorization resolves, the metadata is
  built with that bound, and the scaler is constructed when the metric type is valid and
  the storage client opens.  For every bound that is zero or negative, getItemCount (the
  attribute selection having succeeded) returns \<open>(0, nil)\<close> without one call of
  \<^verbatim>\<open>Next\<close>, and GetMetrics reports one metric of value 0 and no error.
\<close>

theorem nonpositive_scan_bound:
  "(TriggerMetadata config ''bucketName'' = Some b \<and> b \<noteq> [] \<and>
    (\<forall>w. TriggerMetadata config ''targetObjectCount'' = Some w \<longrightarrow> (\<exists>k. ParseInt ext w = Inr k)) \<and>
    TriggerMetadata config ''maxBucketItemsToScan'' = Some v \<and> Atoi ext v = Inr n \<and>
    getGcpAuthorization ext config (ResolvedEnv config) = Inr auth
    \<longrightarrow> (\<exists>meta. parseGcsMetadata ext config = Inr meta \<and> maxBucketItemsToScan meta = n) \<and>
        (GetMetricTargetType ext config = Inr mt \<and>
         (\<forall>opt. \<exists>client h. NewClient ext opt = Inr client \<and> client b = Some h)
         \<longrightarrow> (\<exists>s. fst (NewGcsScaler ext config) = Inr s \<and> maxBucketItemsToScan (metadata s) = n))) \<and>
   (maxCount \<le> 0 \<and> attrSelection (bucket s) = None
    \<longrightarrow> getItemCount s maxCount = (0, None) \<and> getItemCount_calls s maxCount = 0) \<and>
   (maxBucketItemsToScan (metadata s) \<le> 0 \<and> attrSelection (bucket s) = None
    \<longrightarrow> gcsScaler_GetMetrics s now name = ([\<lparr> MetricName = name, Value = 0, Timestamp = now \<rparr>], None))"
proof -
  have p1: "(\<exists>meta. parseGcsMetadata ext config = Inr meta \<and> maxBucketItemsToScan meta = n) \<and>
        (GetMetricTargetType ext config = Inr mt \<and>
         (\<forall>opt. \<exists>client h. NewClient ext opt = Inr client \<and> client b = Some h)
         \<longrightarrow> (\<exists>s. fst (NewGcsScaler ext config) = Inr s \<and> maxBucketItemsToScan (metadata s) = n))"
    if h: "TriggerMetadata config ''bucketName'' = Some b" "b \<noteq> []"
      "\<forall>w. TriggerMetadata config ''targetObjectCount'' = Some w \<longrightarrow> (\<exists>k. ParseInt ext w = Inr k)"
      "TriggerMetadata config ''maxBucketItemsToScan'' = Some v" "Atoi ext v = Inr n"
      "getGcpAuthorization ext config (ResolvedEnv config) = Inr auth"
  proof -
    obtain meta where m: "parseGcsMetadata ext config = Inr meta" "maxBucketItemsToScan meta = n"
       "bucketName meta = b"
      using parseGcsMetadata_bound[OF h] by blast
    have "\<exists>s. fst (NewGcsScaler ext config) = Inr s \<and> maxBucketItemsToScan (metadata s) = n"
      if mt: "GetMetricTargetType ext config = Inr mt"
        and cl: "\<forall>opt. \<exists>client h. NewClient ext opt = Inr client \<and> client b = Some h"
    proof -
      let ?opt = "if podIdentityProviderEnabled (gcpAuthorization meta) then NoOption
                     else if GoogleApplicationCredentialsFile (gcpAuthorization meta) \<noteq> []
                     then WithCredentialsFile (GoogleApplicationCredentialsFile (gcpAuthorization meta))
                     else WithCredentialsJSON (GoogleApplicationCredentials (gcpAuthorization meta))"
      obtain client h where c: "NewClient ext ?opt = Inr client" "client b = Some h"
        using cl by blast
      show ?thesis
        using mt m c by (simp add: NewGcsScaler_def)
    qed
    then show ?thesis
      using m by blast
  qed
  have p2: "getItemCount s maxCount = (0, None) \<and> getItemCount_calls s maxCount = 0"
    if "maxCount \<le> 0" "attrSelection (bucket s) = None"
    using that by (rule getItemCount_nonpositive)
  have p3: "gcsScaler_GetMetrics s now name = ([\<lparr> MetricName = name, Value = 0, Timestamp = now \<rparr>], None)"
    if "maxBucketItemsToScan (metadata s) \<le> 0" "attrSelection (bucket s) = None"
    using getItemCount_nonpositive[OF that] by (simp add: gcsScaler_GetMetrics_def)
  show ?thesis
    using p1 p2 p3 by blast
qed

theorem nonpositive_scan_bound_witness:
  "(\<exists>meta. parseGcsMetadata gcs_libraries
              (config_of [(''bucketName'', ''jobs''), (''maxBucketItemsToScan'', ''-5'')] []) = Inr meta \<and>
           maxBucketItemsToScan meta = - 5) \<and>
   (\<exists>s. fst (NewGcsScaler gcs_libraries
              (config_of [(''bucketName'', ''jobs''), (''maxBucketItemsToScan'', ''-5'')] [])) = Inr s \<and>
        maxBucketItemsToScan (metadata s) = - 5) \<and>
   getItemCount (gcs_scaler_over (replicate 10 NextObject) (- 5)) (- 5) = (0, None) \<and>
   getItemCount_calls (gcs_scaler_over (replicate 10 NextObject) (- 5)) (- 5) = 0 \<and>
   gcsScaler_GetMetrics (gcs_scaler_over (replicate 10 NextObject) (- 5)) 0 ''m''
     = ([\<lparr> MetricName = ''m'', Value = 0, Timestamp = 0 \<rparr>], None)"
proof -
  let ?config = "config_of [(''bucketName'', ''jobs''), (''maxBucketItemsToScan'', ''-5'')] []"
  let ?s = "gcs_scaler_over (replicate 10 NextObject) (- 5)"
  have c1: "TriggerMetadata ?config ''bucketName'' = Some ''jobs''"
    and c2: "\<forall>w. TriggerMetadata ?config ''targetObjectCount'' = Some w \<longrightarrow> (\<exists>k. ParseInt gcs_libraries w = Inr k)"
    and c3: "TriggerMetadata ?config ''maxBucketItemsToScan'' = Some ''-5''"
    by (simp_all add: config_of_def)
  have c4: "Atoi gcs_libraries ''-5'' = Inr (- 5)"
    by (simp add: gcs_libraries_def decimal_int_examples)
  have c5: "getGcpAuthorization gcs_libraries ?config (ResolvedEnv ?config) = Inr workload_identity"
    and c6: "GetMetricTargetType gcs_libraries ?config = Inr AverageValueMetricType"
    and c7: "\<forall>opt. \<exists>client h. NewClient gcs_libraries opt = Inr client \<and> client ''jobs'' = Some h"
    by (simp_all add: gcs_libraries_def)
  have s1: "attrSelection (bucket ?s) = None" "maxBucketItemsToScan (metadata ?s) = - 5"
    by (simp_all add: gcs_scaler_over_def)
  show ?thesis
    using nonpositive_scan_bound[where config = ?config and b = "''jobs''" and ext = gcs_libraries
        and v = "''-5''" and n = "- 5" and auth = workload_identity and mt = AverageValueMetricType
        and maxCount = "- 5" and s = ?s and now = 0 and name = "''m''"]
      c1 c2 c3 c4 c5 c6 c7 s1
    by simp
qed

section \<open>The predictive scaler: queries and predictions\<close>

lemmas pk_eval = PredictKubeScaler_GetMetrics_def PredictKubeScaler_IsActive_def doPredictRequest_def doQuery_def
  parsePrometheusResult_def pk_services_def pk_metadata_of_def predictRequest_def lastObserved_def
  int64_of_float64_def toward_zero_def int64_range millis_to_pb_def
  defaultStep_def minute_def predictKubeMetricPrefix_def Let_def

text \<open>doQuery changes the metadata in one way only: a zero step becomes the default step.\<close>

lemma doQuery_meta:
  "fst (doQuery ext meta) = (if stepDuration meta = 0 then meta\<lparr>stepDuration := defaultStep\<rparr> else meta)"
  by (simp add: doQuery_def Let_def split: sum.splits)

text \<open>So the division of doPredictRequest never has a zero divisor.\<close>

lemma doQuery_step_nonzero: "stepDuration (fst (doQuery ext meta)) \<noteq> 0"
  by (simp add: doQuery_meta defaultStep_def minute_def)

lemma doQuery_default_step:
  "stepDuration meta = 0 \<Longrightarrow> stepDuration (fst (doQuery ext meta)) = 5 * minute"
  by (simp add: doQuery_meta defaultStep_def)

lemma lastObserved_last:
  "results \<noteq> [] \<Longrightarrow> lastObserved ext results = int64_of_float64 (int64_unrepresentable ext) (Item_Value (last results))"
  by (simp add: lastObserved_def last_conv_nth)

lemma toward_zero_gt: "r - 1 < real_of_int (toward_zero r)"
  unfolding toward_zero_def by (auto; linarith)

lemma doPredictRequest_max:
  assumes q: "doQuery ext meta = (meta', Inr results)"
    and p: "GetPredictMetric ext (predictRequest ext meta' results) = Inr x"
  shows "doPredictRequest ext meta = (meta', (max x (lastObserved ext results), None))"
  using q p by (simp add: doPredictRequest_def Let_def max_def)

text \<open>
  C1, as the code has it.  The claim fails at a last observation with a fraction: with the
  observations 5 and 9.5 and the prediction 7, the metric is 9, below 9.5.
\<close>

theorem GetMetrics_fraction_counterexample:
  "snd (PredictKubeScaler_GetMetrics
          (pk_services (Inr (model_Vector [Sample 1000 (Finite 5), Sample 2000 (Finite (19 / 2))])) (Inr 7) (Some SERVING, None))
          (pk_metadata_of (10 * minute) (5 * minute)) 0 ''m'')
     = ([\<lparr> MetricName = ''m'', Value = 9, Timestamp = 0 \<rparr>], None) \<and>
   real_of_int 9 < max (real_of_int 7) (19 / 2) \<and> real_of_int 9 < 19 / 2"
  by (simp add: pk_eval)

text \<open>
  The observation that doPredictRequest compares with the prediction is the last element of
  the normalized list, which for a matrix is the last sample of the last series and need not
  be the newest sample of the window: with the series \<open>(1s, 1), (3s, 100)\<close> and \<open>(2s, 3)\<close>
  and the prediction 7 the metric is 7.
\<close>

lemma GetMetrics_last_of_list_example:
  "snd (PredictKubeScaler_GetMetrics
          (pk_services
             (Inr (model_Matrix [SampleStream [SamplePair 1000 (Finite 1), SamplePair 3000 (Finite 100)],
                                 SampleStream [SamplePair 2000 (Finite 3)]]))
             (Inr 7) (Some SERVING, None))
          (pk_metadata_of (10 * minute) (5 * minute)) 0 ''m'')
     = ([\<lparr> MetricName = ''m'', Value = 7, Timestamp = 0 \<rparr>], None)"
  by (simp add: pk_eval)

text \<open>
  C1 (amended): when the query succeeds with the normalized list \<open>results\<close> and the remote
  engine returns the prediction \<open>x\<close>, doPredictRequest returns the larger of \<open>x\<close> and
  \<open>y\<close>, where \<open>y\<close> is 0 when the list is empty and otherwise the conversion
  \<^verbatim>\<open>int64(v)\<close> of the value \<open>v\<close> of the last element of the list (not of the newest
  sample of the window); GetMetrics returns that maximum as the one metric whenever it is not
  0.  The metric is never less than \<open>y\<close>.  When \<open>v\<close> is finite and its integer part is
  an int64, \<open>y\<close> is \<open>v\<close> with its fraction discarded, and the metric is more than \<open>v\<close>
  minus one.  When \<open>v\<close> is a NaN, an infinity or beyond the int64 range, \<open>y\<close> is what the
  platform makes of the conversion, and nothing relates the metric to \<open>v\<close>.
\<close>

theorem GetMetrics_max:
  "doQuery ext meta = (meta', Inr results) \<Longrightarrow>
   GetPredictMetric ext (predictRequest ext meta' results) = Inr x \<Longrightarrow>
     snd (doPredictRequest ext meta) = (max x (lastObserved ext results), None) \<and>
     lastObserved ext results \<le> max x (lastObserved ext results) \<and>
     (max x (lastObserved ext results) \<noteq> 0 \<longrightarrow>
        snd (PredictKubeScaler_GetMetrics ext meta now name) =
          ([\<lparr> MetricName = name, Value = max x (lastObserved ext results), Timestamp = now \<rparr>], None)) \<and>
     (results = [] \<longrightarrow> lastObserved ext results = 0) \<and>
     (\<forall>r. results \<noteq> [] \<and> Item_Value (last results) = Finite r \<and> in_int64 (toward_zero r) \<longrightarrow>
          lastObserved ext results = toward_zero r \<and>
          r - 1 < real_of_int (max x (lastObserved ext results))) \<and>
     (results \<noteq> [] \<longrightarrow>
        lastObserved ext results =
          int64_of_float64 (int64_unrepresentable ext) (Item_Value (last results))) \<and>
     (results \<noteq> [] \<and> (\<forall>r. Item_Value (last results) = Finite r \<longrightarrow> \<not> in_int64 (toward_zero r)) \<longrightarrow>
        lastObserved ext results = int64_unrepresentable ext (Item_Value (last results)))"
proof -
  assume q: "doQuery ext meta = (meta', Inr results)"
    and p: "GetPredictMetric ext (predictRequest ext meta' results) = Inr x"
  let ?y = "lastObserved ext results"
  have d: "doPredictRequest ext meta = (meta', (max x ?y, None))"
    using q p by (rule doPredictRequest_max)
  have a: "snd (doPredictRequest ext meta) = (max x ?y, None)" using d by simp
  have b: "?y \<le> max x ?y" by simp
  have c: "snd (PredictKubeScaler_GetMetrics ext meta now name) =
          ([\<lparr> MetricName = name, Value = max x ?y, Timestamp = now \<rparr>], None)"
    if "max x ?y \<noteq> 0"
    using d that by (simp add: PredictKubeScaler_GetMetrics_def)
  have e: "results = [] \<longrightarrow> ?y = 0" by (simp add: lastObserved_def)
  have f: "?y = toward_zero r \<and> r - 1 < real_of_int (max x ?y)"
    if h: "results \<noteq> []" "Item_Value (last results) = Finite r" "in_int64 (toward_zero r)" for r
  proof -
    have y: "?y = toward_zero r" using h by (simp add: lastObserved_last int64_of_float64_def)
    have "r - 1 < real_of_int (toward_zero r)" by (rule toward_zero_gt)
    also have "\<dots> \<le> real_of_int (max x ?y)" using y by simp
    finally show ?thesis using y by simp
  qed
  have g: "results \<noteq> [] \<longrightarrow>
        ?y = int64_of_float64 (int64_unrepresentable ext) (Item_Value (last results))"
    by (simp add: lastObserved_last)
  have u: "?y = int64_unrepresentable ext (Item_Value (last results))"
    if h: "results \<noteq> []" "\<forall>r. Item_Value (last results) = Finite r \<longrightarrow> \<not> in_int64 (toward_zero r)"
    using h by (cases "Item_Value (last results)") (simp_all add: lastObserved_last int64_of_float64_def)
  show ?thesis using a b c e f g u by blast
qed

theorem GetMetrics_max_witness:
  "snd (PredictKubeScaler_GetMetrics
          (pk_services (Inr (model_Vector [Sample 1000 (Finite 5), Sample 2000 (Finite 9)])) (Inr 7) (Some SERVING, None))
          (pk_metadata_of (10 * minute) (5 * minute)) 0 ''m'')
     = ([\<lparr> MetricName = ''m'', Value = 9, Timestamp = 0 \<rparr>], None) \<and>
   snd (PredictKubeScaler_GetMetrics
          (pk_services (Inr (model_Vector [Sample 1000 (Finite 5), Sample 2000 PosInf])) (Inr 7) (Some SERVING, None))
          (pk_metadata_of (10 * minute) (5 * minute)) 0 ''m'')
     = ([\<lparr> MetricName = ''m'', Value = 7, Timestamp = 0 \<rparr>], None)"
proof -
  let ?ext = "pk_services (Inr (model_Vector [Sample 1000 (Finite 5), Sample 2000 (Finite 9)])) (Inr 7) (Some SERVING, None)"
  let ?inf = "pk_services (Inr (model_Vector [Sample 1000 (Finite 5), Sample 2000 PosInf])) (Inr 7) (Some SERVING, None)"
  let ?meta = "pk_metadata_of (10 * minute) (5 * minute)"
  let ?results = "[Item \<lparr>Seconds = 1, Nanos = 0\<rparr> (Finite 5) ''s0-predictkube-predictkube_metric'',
                   Item \<lparr>Seconds = 2, Nanos = 0\<rparr> (Finite 9) ''s0-predictkube-predictkube_metric'']"
  let ?unbounded = "[Item \<lparr>Seconds = 1, Nanos = 0\<rparr> (Finite 5) ''s0-predictkube-predictkube_metric'',
                     Item \<lparr>Seconds = 2, Nanos = 0\<rparr> PosInf ''s0-predictkube-predictkube_metric'']"
  have q: "doQuery ?ext ?meta = (?meta, Inr ?results)"
    by (simp add: pk_eval)
  have p: "GetPredictMetric ?ext (predictRequest ?ext ?meta ?results) = Inr 7"
    by (simp add: pk_services_def)
  have y: "lastObserved ?ext ?results = 9"
    by (simp add: lastObserved_def int64_of_float64_def toward_zero_def in_int64_def minInt64_def maxInt64_def)
  have finite: "snd (PredictKubeScaler_GetMetrics ?ext ?meta 0 ''m'')
                  = ([\<lparr> MetricName = ''m'', Value = 9, Timestamp = 0 \<rparr>], None)"
    using GetMetrics_max[OF q p, of 0 "''m''"] y by simp
  have q': "doQuery ?inf ?meta = (?meta, Inr ?unbounded)"
    by (simp add: pk_eval)
  have p': "GetPredictMetric ?inf (predictRequest ?inf ?meta ?unbounded) = Inr 7"
    by (simp add: pk_services_def)
  have v: "?unbounded \<noteq> []" "\<forall>r. Item_Value (last ?unbounded) = Finite r \<longrightarrow> \<not> in_int64 (toward_zero r)"
    by simp_all
  have c: "int64_unrepresentable ?inf (Item_Value (last ?unbounded)) = minInt64"
    by (simp add: pk_services_def)
  have y': "lastObserved ?inf ?unbounded = minInt64"
    using GetMetrics_max[OF q' p', of 0 "''m''"] v c by simp
  have infinite: "snd (PredictKubeScaler_GetMetrics ?inf ?meta 0 ''m'')
                  = ([\<lparr> MetricName = ''m'', Value = 7, Timestamp = 0 \<rparr>], None)"
    using GetMetrics_max[OF q' p', of 0 "''m''"] y' by (simp add: minInt64_def)
  show ?thesis
    using finite infinite by simp
qed

text \<open>
  C2, as the code has it.  On the observation 0 a failed probe gives the boolean true, while
  the healthy path, on the same observation, gives false: the two are not derived alike.
\<close>

theorem IsActive_degraded_counterexample:
  "snd (PredictKubeScaler_IsActive
          (pk_services (Inr (model_Vector [Sample 1000 (Finite 0)])) (Inr 0) (None, Some (Error ''connection refused'')))
          (pk_metadata_of (10 * minute) (5 * minute)))
     = (True, Some (Error ''can't connect grpc server: empty server response, code: Unknown'')) \<and>
   snd (PredictKubeScaler_IsActive
          (pk_services (Inr (model_Vector [Sample 1000 (Finite 0)])) (Inr 0) (Some SERVING, None))
          (pk_metadata_of (10 * minute) (5 * minute)))
     = (False, None)"
  by (simp add: pk_eval)

text \<open>
  C2 (amended): when the query succeeds and the health probe returns no response or an error,
  IsActive returns that error, reworded, together with the boolean "the query returned at
  least one observation"; on the healthy path the boolean is "the last observation, converted
  to int64, is positive", with no error.
\<close>

theorem IsActive_degraded:
  "doQuery ext meta = (meta', Inr results) \<Longrightarrow>
     (fst (HealthCheck ext) = None \<or> snd (HealthCheck ext) \<noteq> None \<longrightarrow>
        (\<exists>err. PredictKubeScaler_IsActive ext meta = (meta', (results \<noteq> [], Some err)))) \<and>
     (\<forall>resp. HealthCheck ext = (Some resp, None) \<longrightarrow>
        PredictKubeScaler_IsActive ext meta = (meta', (0 < lastObserved ext results, None)))"
proof -
  assume q: "doQuery ext meta = (meta', Inr results)"
  obtain resp err where h: "HealthCheck ext = (resp, err)" by (cases "HealthCheck ext")
  have a: "\<exists>e. PredictKubeScaler_IsActive ext meta = (meta', (results \<noteq> [], Some e))"
    if "fst (HealthCheck ext) = None \<or> snd (HealthCheck ext) \<noteq> None"
  proof (cases resp)
    case None
    then show ?thesis using q h by (simp add: PredictKubeScaler_IsActive_def)
  next
    case (Some st)
    have "err \<noteq> None" using that h Some by simp
    then obtain e where "err = Some e" by blast
    then show ?thesis using q h Some by (simp add: PredictKubeScaler_IsActive_def)
  qed
  have b: "\<forall>resp. HealthCheck ext = (Some resp, None) \<longrightarrow>
        PredictKubeScaler_IsActive ext meta = (meta', (0 < lastObserved ext results, None))"
    using q by (simp add: PredictKubeScaler_IsActive_def)
  show ?thesis using a b by blast
qed

theorem IsActive_degraded_witness:
  "snd (PredictKubeScaler_IsActive
          (pk_services (Inr (model_Vector [Sample 1000 (Finite 4)])) (Inr 0) (Some SERVING, Some (Error ''deadline exceeded'')))
          (pk_metadata_of (10 * minute) (5 * minute)))
     = (True, Some (Error ''can't connect grpc server: deadline exceeded, code: Unavailable'')) \<and>
   snd (PredictKubeScaler_IsActive
          (pk_services (Inr (model_Vector [Sample 1000 (Finite 4)])) (Inr 0) (Some SERVING, None))
          (pk_metadata_of (10 * minute) (5 * minute)))
     = (True, None)"
proof -
  let ?meta = "pk_metadata_of (10 * minute) (5 * minute)"
  let ?results = "[Item \<lparr>Seconds = 1, Nanos = 0\<rparr> (Finite 4) ''s0-predictkube-predictkube_metric'']"
  let ?bad = "pk_services (Inr (model_Vector [Sample 1000 (Finite 4)])) (Inr 0) (Some SERVING, Some (Error ''deadline exceeded''))"
  let ?good = "pk_services (Inr (model_Vector [Sample 1000 (Finite 4)])) (Inr 0) (Some SERVING, None)"
  have q1: "doQuery ?bad ?meta = (?meta, Inr ?results)"
    by (simp add: pk_eval)
  have q2: "doQuery ?good ?meta = (?meta, Inr ?results)"
    by (simp add: pk_eval)
  have h1: "snd (HealthCheck ?bad) \<noteq> None" by (simp add: pk_services_def)
  have h2: "HealthCheck ?good = (Some SERVING, None)" by (simp add: pk_services_def)
  have y: "lastObserved ?good ?results = 4"
    by (simp add: lastObserved_def int64_of_float64_def toward_zero_def in_int64_def minInt64_def maxInt64_def)
  have a: "snd (PredictKubeScaler_IsActive ?bad ?meta)
            = (True, Some (Error ''can't connect grpc server: deadline exceeded, code: Unavailable''))"
    using IsActive_degraded[OF q1] h1 by (simp add: pk_eval)
  have b: "snd (PredictKubeScaler_IsActive ?good ?meta) = (True, None)"
    using IsActive_degraded[OF q2] h2 y by simp
  show ?thesis using a b by simp
qed

text \<open>
  C4, as the code has it.  The claim, for every scaler, fails for the storage scaler: on an
  empty bucket GetMetrics returns one metric of value 0 and no error.
\<close>

theorem gcsScaler_GetMetrics_zero_counterexample:
  "gcsScaler_GetMetrics (gcs_scaler_over [] 1000) 0 ''m'' = ([\<lparr> MetricName = ''m'', Value = 0, Timestamp = 0 \<rparr>], None)"
  by (simp add: gcsScaler_GetMetrics_def getItemCount_def getItemCount_run_def gcs_scaler_over_def)

text \<open>
  C4 (amended): in the PredictKube scaler, when the query and the prediction succeed and the
  computed value is exactly 0, GetMetrics returns an empty list and the error
  \<^verbatim>\<open>empty response after predict request\<close>.  The storage scaler has no such rule: a count
  of 0 is returned as one metric of value 0, with no error.
\<close>

theorem GetMetrics_zero:
  "(doPredictRequest ext meta = (meta', (0, None)) \<longrightarrow>
      PredictKubeScaler_GetMetrics ext meta now name =
        (meta', ([], Some (Error ''empty response after predict request'')))) \<and>
   (getItemCount s (maxBucketItemsToScan (metadata s)) = (0, None) \<longrightarrow>
      gcsScaler_GetMetrics s now name = ([\<lparr> MetricName = name, Value = 0, Timestamp = now \<rparr>], None))"
  by (simp add: PredictKubeScaler_GetMetrics_def gcsScaler_GetMetrics_def)

theorem GetMetrics_zero_witness:
  "PredictKubeScaler_GetMetrics (pk_services (Inr (model_Vector [])) (Inr 0) (Some SERVING, None))
        (pk_metadata_of (10 * minute) (5 * minute)) 0 ''m''
     = (pk_metadata_of (10 * minute) (5 * minute), ([], Some (Error ''empty response after predict request''))) \<and>
   gcsScaler_GetMetrics (gcs_scaler_over [] 1000) 0 ''m'' = ([\<lparr> MetricName = ''m'', Value = 0, Timestamp = 0 \<rparr>], None)"
proof -
  let ?ext = "pk_services (Inr (model_Vector [])) (Inr 0) (Some SERVING, None)"
  let ?meta = "pk_metadata_of (10 * minute) (5 * minute)"
  have d: "doPredictRequest ?ext ?meta = (?meta, (0, None))"
    by (simp add: pk_eval)
  have g: "getItemCount (gcs_scaler_over [] 1000) (maxBucketItemsToScan (metadata (gcs_scaler_over [] 1000))) = (0, None)"
    by (simp add: getItemCount_def getItemCount_run_def gcs_scaler_over_def)
  show ?thesis
    using GetMetrics_zero[where ext = ?ext and meta = ?meta and meta' = ?meta
            and s = "gcs_scaler_over [] 1000" and now = 0 and name = "''m''"] d g by simp
qed

text \<open>
  The forecast horizon of the request is the quotient of the two durations as integers: below
  \<open>2^53\<close> the conversions and \<^verbatim>\<open>math.Round\<close> change nothing.
\<close>

lemma predictRequest_horizon:
  assumes "0 \<le> predictHorizon meta" "0 < stepDuration meta"
    and "predictHorizon meta div stepDuration meta < 2 ^ 53"
  shows "ForecastHorizon (predictRequest ext meta results) = predictHorizon meta div stepDuration meta"
proof -
  let ?q = "predictHorizon meta div stepDuration meta"
  have q0: "0 \<le> ?q"
    using assms(1,2) by (simp add: pos_imp_zdiv_nonneg_iff)
  have sd: "predictHorizon meta sdiv stepDuration meta = ?q"
    using assms(1,2) by (simp add: signed_divide_int_def sgn_if)
  have w: "wrap_int64 ?q = ?q"
    using q0 assms(3) by (simp add: wrap_int64_def)
  have f: "float64_of_int64 ?q = Finite (of_int ?q)"
    using q0 assms(3) by (simp add: float64_of_int64_def)
  have r: "math_Round (Finite (of_int ?q)) = Finite (of_int ?q)"
    using q0 by (simp add: math_Round_def)
  have u: "uint64_of_float64 (uint64_unrepresentable ext) (Finite (of_int ?q)) = ?q"
    using q0 assms(3) by (simp add: uint64_of_float64_def toward_zero_def maxUint64_def)
  show ?thesis
    by (simp add: predictRequest_def int64_quo_def sd w f r u)
qed

text \<open>
  C3, at a horizon of 8 minutes and a step of 5 minutes: doQuery leaves the metadata as it
  is, and the request carries the horizon 1, the integer quotient, where the quotient
  rounded is 2.
\<close>

theorem forecast_horizon_truncated:
  "fst (doQuery ext (pk_metadata_of (8 * minute) (5 * minute))) = pk_metadata_of (8 * minute) (5 * minute) \<and>
   ForecastHorizon (predictRequest ext (pk_metadata_of (8 * minute) (5 * minute)) results) = 1 \<and>
   round (real_of_int (8 * minute) / real_of_int (5 * minute)) = 2"
proof -
  have kept: "fst (doQuery ext (pk_metadata_of (8 * minute) (5 * minute))) = pk_metadata_of (8 * minute) (5 * minute)"
    by (simp add: doQuery_meta pk_metadata_of_def minute_def)
  have sent: "ForecastHorizon (predictRequest ext (pk_metadata_of (8 * minute) (5 * minute)) results) = 1"
    by (simp add: predictRequest_horizon pk_metadata_of_def minute_def)
  have asked: "round (real_of_int (8 * minute) / real_of_int (5 * minute)) = 2"
    by (simp add: minute_def round_def)
  show ?thesis
    using kept sent asked by simp
qed


section \<open>The predictive scaler: normalizing a query result\<close>

lemma parse_stream_converted:
  "\<forall>v \<in> set vs. \<not> isl (adapt (SamplePair_Timestamp v)) \<Longrightarrow>
   parse_stream adapt name vs out =
     Inr (out @ map (\<lambda>v. Item (projr (adapt (SamplePair_Timestamp v))) (SamplePair_Value v) name) vs)"
proof (induction vs arbitrary: out)
  case Nil
  show ?case by simp
next
  case (Cons v vs)
  from Cons.prems obtain t where t: "adapt (SamplePair_Timestamp v) = Inr t"
    by (cases "adapt (SamplePair_Timestamp v)") auto
  have rest: "\<forall>v \<in> set vs. \<not> isl (adapt (SamplePair_Timestamp v))"
    using Cons.prems by simp
  show ?case
    using Cons.IH[OF rest] t by simp
qed

lemma parse_matrix_converted:
  "\<forall>v \<in> set (concat (map Values res)). \<not> isl (adapt (SamplePair_Timestamp v)) \<Longrightarrow>
   parse_matrix adapt name res out =
     Inr (out @ map (\<lambda>v. Item (projr (adapt (SamplePair_Timestamp v))) (SamplePair_Value v) name)
                  (concat (map Values res)))"
proof (induction res arbitrary: out)
  case Nil
  show ?case by simp
next
  case (Cons val res)
  have here: "\<forall>v \<in> set (Values val). \<not> isl (adapt (SamplePair_Timestamp v))"
    and rest: "\<forall>v \<in> set (concat (map Values res)). \<not> isl (adapt (SamplePair_Timestamp v))"
    using Cons.prems by simp_all
  show ?case
    using parse_stream_converted[OF here] Cons.IH[OF rest] by simp
qed

text \<open>
  C7: for a matrix all of whose sample timestamps convert, parsePrometheusResult returns one
  observation for every sample, in the order of the series and, within a series, of its
  samples, each with the converted timestamp and the value of its sample: as many
  observations as the matrix has samples.  A result whose type is none of the four known
  ones gives the error \<^verbatim>\<open>metric type is invalid\<close>, and a string sample that does not parse
  as a number makes the whole call fail.
\<close>

theorem parsePrometheusResult_matrix:
  "((\<forall>v \<in> set (concat (map Values res)). \<not> isl (AdaptTimeToPbTimestamp ext (SamplePair_Timestamp v))) \<longrightarrow>
      parsePrometheusResult ext meta (model_Matrix res) =
        Inr (map (\<lambda>v. Item (projr (AdaptTimeToPbTimestamp ext (SamplePair_Timestamp v))) (SamplePair_Value v)
                        (GenerateMetricNameWithIndex ext (scalerIndex meta)
                           (NormalizeString ext (''predictkube-'' @ predictKubeMetricPrefix))))
                 (concat (map Values res))) \<and>
      length (projr (parsePrometheusResult ext meta (model_Matrix res))) = length (concat (map Values res))) \<and>
   (Value_Type result = ValNone \<longrightarrow>
      parsePrometheusResult ext meta result = Inl (Error ''metric type is invalid'')) \<and>
   (isl (ParseFloat ext str) \<longrightarrow> isl (parsePrometheusResult ext meta (model_String ts str)))"
proof -
  have a: "parsePrometheusResult ext meta (model_Matrix res) =
        Inr (map (\<lambda>v. Item (projr (AdaptTimeToPbTimestamp ext (SamplePair_Timestamp v))) (SamplePair_Value v)
                        (GenerateMetricNameWithIndex ext (scalerIndex meta)
                           (NormalizeString ext (''predictkube-'' @ predictKubeMetricPrefix))))
                 (concat (map Values res)))"
    if "\<forall>v \<in> set (concat (map Values res)). \<not> isl (AdaptTimeToPbTimestamp ext (SamplePair_Timestamp v))"
    using parse_matrix_converted[OF that, of _ "[]"] by (simp add: parsePrometheusResult_def)
  have b: "parsePrometheusResult ext meta result = Inl (Error ''metric type is invalid'')"
    if "Value_Type result = ValNone"
    using that by (simp add: parsePrometheusResult_def invalidMetricTypeErr_def)
  have c: "isl (parsePrometheusResult ext meta (model_String ts str))" if "isl (ParseFloat ext str)"
    using that by (auto simp: parsePrometheusResult_def split: sum.splits)
  show ?thesis
    using a b c by simp
qed

theorem parsePrometheusResult_matrix_witness:
  "parsePrometheusResult (pk_services (Inl (Error ''unused'')) (Inr 0) (Some SERVING, None))
       (pk_metadata_of (10 * minute) (5 * minute))
       (model_Matrix [SampleStream [SamplePair 1000 (Finite 1), SamplePair 2000 (Finite 2)],
                      SampleStream [SamplePair 1500 (Finite (7 / 2))]])
     = Inr [Item \<lparr>Seconds = 1, Nanos = 0\<rparr> (Finite 1) ''s0-predictkube-predictkube_metric'',
            Item \<lparr>Seconds = 2, Nanos = 0\<rparr> (Finite 2) ''s0-predictkube-predictkube_metric'',
            Item \<lparr>Seconds = 1, Nanos = 500000000\<rparr> (Finite (7 / 2)) ''s0-predictkube-predictkube_metric''] \<and>
   parsePrometheusResult (pk_services (Inl (Error ''unused'')) (Inr 0) (Some SERVING, None))
       (pk_metadata_of (10 * minute) (5 * minute)) (model_Other ValNone)
     = Inl (Error ''metric type is invalid'') \<and>
   isl (parsePrometheusResult (pk_services (Inl (Error ''unused'')) (Inr 0) (Some SERVING, None))
       (pk_metadata_of (10 * minute) (5 * minute)) (model_String 1000 ''many''))"
proof -
  let ?ext = "pk_services (Inl (Error ''unused'')) (Inr 0) (Some SERVING, None)"
  let ?meta = "pk_metadata_of (10 * minute) (5 * minute)"
  let ?res = "[SampleStream [SamplePair 1000 (Finite 1), SamplePair 2000 (Finite 2)],
               SampleStream [SamplePair 1500 (Finite (7 / 2))]]"
  have conv: "\<forall>v \<in> set (concat (map Values ?res)). \<not> isl (AdaptTimeToPbTimestamp ?ext (SamplePair_Timestamp v))"
    by (simp add: pk_services_def millis_to_pb_def)
  have ty: "Value_Type (model_Other ValNone) = ValNone"
    by simp
  have pf: "isl (ParseFloat ?ext ''many'')"
    by (simp add: pk_services_def decimal_float_def decimal_int_examples)
  show ?thesis
    using parsePrometheusResult_matrix[of ?res ?ext ?meta "model_Other ValNone" "''many''" 1000] conv ty pf
    by (simp add: pk_services_def pk_metadata_of_def millis_to_pb_def predictKubeMetricPrefix_def)
qed


section \<open>Metadata validation\<close>

lemma query_givenD: "query_given config \<Longrightarrow> \<exists>q. TriggerMetadata config ''query'' = Some q \<and> q \<noteq> []"
  by (simp add: query_given_def split: option.splits)

lemma address_validD:
  "address_valid ext config \<Longrightarrow>
     \<exists>addr. TriggerMetadata config ''prometheusAddress'' = Some addr \<and> validate_Var ext addr ''url'' = None"
  by (simp add: address_valid_def split: option.splits)

lemma duration_validD:
  "duration_valid ext config field \<Longrightarrow>
     \<exists>v d. TriggerMetadata config field = Some v \<and> ParseDuration ext v = Inr d"
  by (cases "TriggerMetadata config field"; cases "ParseDuration ext (the (TriggerMetadata config field))")
     (auto simp: duration_valid_def)

lemma threshold_validD:
  "threshold_valid ext config \<Longrightarrow>
     \<exists>v n. TriggerMetadata config ''threshold'' = Some v \<and> ParseInt ext v = Inr n"
  by (cases "TriggerMetadata config ''threshold''"; cases "ParseInt ext (the (TriggerMetadata config ''threshold''))")
     (auto simp: threshold_valid_def)

lemma no_query: "TriggerMetadata config ''query'' = None \<Longrightarrow>
    parsePredictKubeMetadata ext config = Inl (Error ''no query given'')"
  by (simp add: parsePredictKubeMetadata_def)

lemma no_address:
  assumes "query_given config" "TriggerMetadata config ''prometheusAddress'' = None"
  shows "parsePredictKubeMetadata ext config = Inl (Error ''no prometheusAddress given'')"
proof -
  obtain q where "TriggerMetadata config ''query'' = Some q" "q \<noteq> []"
    using assms(1) query_givenD by blast
  then show ?thesis
    using assms(2) by (simp add: parsePredictKubeMetadata_def)
qed

lemma no_horizon:
  assumes "query_given config" "address_valid ext config"
    "TriggerMetadata config ''predictHorizon'' = None"
  shows "parsePredictKubeMetadata ext config = Inl (Error ''no predictHorizon given'')"
proof -
  obtain q where "TriggerMetadata config ''query'' = Some q" "q \<noteq> []"
    using assms(1) query_givenD by blast
  moreover obtain addr where "TriggerMetadata config ''prometheusAddress'' = Some addr"
      "validate_Var ext addr ''url'' = None"
    using assms(2) address_validD by blast
  ultimately show ?thesis
    using assms(3) by (simp add: parsePredictKubeMetadata_def)
qed

lemma no_step:
  assumes "query_given config" "address_valid ext config" "duration_valid ext config ''predictHorizon''"
    "TriggerMetadata config ''queryStep'' = None"
  shows "parsePredictKubeMetadata ext config = Inl (Error ''no queryStep given'')"
proof -
  obtain q where "TriggerMetadata config ''query'' = Some q" "q \<noteq> []"
    using assms(1) query_givenD by blast
  moreover obtain addr where "TriggerMetadata config ''prometheusAddress'' = Some addr"
      "validate_Var ext addr ''url'' = None"
    using assms(2) address_validD by blast
  moreover obtain ph horizon where "TriggerMetadata config ''predictHorizon'' = Some ph"
      "ParseDuration ext ph = Inr horizon"
    using assms(3) duration_validD by blast
  ultimately show ?thesis
    using assms(4) by (simp add: parsePredictKubeMetadata_def)
qed

lemma no_window:
  assumes "query_given config" "address_valid ext config" "duration_valid ext config ''predictHorizon''"
    "duration_valid ext config ''queryStep''"
    "TriggerMetadata config ''historyTimeWindow'' = None"
  shows "parsePredictKubeMetadata ext config = Inl (Error ''no historyTimeWindow given'')"
proof -
  obtain q where "TriggerMetadata config ''query'' = Some q" "q \<noteq> []"
    using assms(1) query_givenD by blast
  moreover obtain addr where "TriggerMetadata config ''prometheusAddress'' = Some addr"
      "validate_Var ext addr ''url'' = None"
    using assms(2) address_validD by blast
  moreover obtain ph horizon where "TriggerMetadata config ''predictHorizon'' = Some ph"
      "ParseDuration ext ph = Inr horizon"
    using assms(3) duration_validD by blast
  moreover obtain qs step where "TriggerMetadata config ''queryStep'' = Some qs"
      "ParseDuration ext qs = Inr step"
    using assms(4) duration_validD by blast
  ultimately show ?thesis
    using assms(5) by (simp add: parsePredictKubeMetadata_def)
qed

lemma no_threshold:
  assumes "query_given config" "address_valid ext config" "duration_valid ext config ''predictHorizon''"
    "duration_valid ext config ''queryStep''" "duration_valid ext config ''historyTimeWindow''"
    "TriggerMetadata config ''threshold'' = None"
  shows "parsePredictKubeMetadata ext config = Inl (Error ''no threshold given'')"
proof -
  obtain q where "TriggerMetadata config ''query'' = Some q" "q \<noteq> []"
    using assms(1) query_givenD by blast
  moreover obtain addr where "TriggerMetadata config ''prometheusAddress'' = Some addr"
      "validate_Var ext addr ''url'' = None"
    using assms(2) address_validD by blast
  moreover obtain ph horizon where "TriggerMetadata config ''predictHorizon'' = Some ph"
      "ParseDuration ext ph = Inr horizon"
    using assms(3) duration_validD by blast
  moreover obtain qs step where "TriggerMetadata config ''queryStep'' = Some qs"
      "ParseDuration ext qs = Inr step"
    using assms(4) duration_validD by blast
  moreover obtain hw window where "TriggerMetadata config ''historyTimeWindow'' = Some hw"
      "ParseDuration ext hw = Inr window"
    using assms(5) duration_validD by blast
  ultimately show ?thesis
    using assms(6) by (simp add: parsePredictKubeMetadata_def)
qed

lemma no_apiKey:
  assumes "query_given config" "address_valid ext config" "duration_valid ext config ''predictHorizon''"
    "duration_valid ext config ''queryStep''" "duration_valid ext config ''historyTimeWindow''"
    "threshold_valid ext config"
    "AuthParams config ''apiKey'' = None"
  shows "parsePredictKubeMetadata ext config = Inl (Error ''no api key given'')"
proof -
  obtain q where "TriggerMetadata config ''query'' = Some q" "q \<noteq> []"
    using assms(1) query_givenD by blast
  moreover obtain addr where "TriggerMetadata config ''prometheusAddress'' = Some addr"
      "validate_Var ext addr ''url'' = None"
    using assms(2) address_validD by blast
  moreover obtain ph horizon where "TriggerMetadata config ''predictHorizon'' = Some ph"
      "ParseDuration ext ph = Inr horizon"
    using assms(3) duration_validD by blast
  moreover obtain qs step where "TriggerMetadata config ''queryStep'' = Some qs"
      "ParseDuration ext qs = Inr step"
    using assms(4) duration_validD by blast
  moreover obtain hw window where "TriggerMetadata config ''historyTimeWindow'' = Some hw"
      "ParseDuration ext hw = Inr window"
    using assms(5) duration_validD by blast
  moreover obtain th thr where "TriggerMetadata config ''threshold'' = Some th"
      "ParseInt ext th = Inr thr"
    using assms(6) threshold_validD by blast
  ultimately show ?thesis
    using assms(7) by (simp add: parsePredictKubeMetadata_def)
qed

lemma parse_success_fields:
  "parsePredictKubeMetadata ext config = Inr meta \<Longrightarrow>
     TriggerMetadata config ''query'' \<noteq> None \<and> TriggerMetadata config ''prometheusAddress'' \<noteq> None \<and>
     TriggerMetadata config ''predictHorizon'' \<noteq> None \<and> TriggerMetadata config ''queryStep'' \<noteq> None \<and>
     TriggerMetadata config ''historyTimeWindow'' \<noteq> None \<and> TriggerMetadata config ''threshold'' \<noteq> None \<and>
     AuthParams config ''apiKey'' \<noteq> None"
  unfolding parsePredictKubeMetadata_def
  by (auto split: option.splits sum.splits if_splits)

lemma parse_failure_no_connection:
  "isl (parsePredictKubeMetadata ext config) \<Longrightarrow> snd (NewPredictKubeScaler ext config) = []"
  by (cases "parsePredictKubeMetadata ext config")
     (simp_all add: NewPredictKubeScaler_def split: sum.splits)

lemma gcs_parse_failure_no_connection:
  "isl (parseGcsMetadata ext config) \<Longrightarrow> snd (NewGcsScaler ext config) = []"
  by (cases "parseGcsMetadata ext config")
     (simp_all add: NewGcsScaler_def split: sum.splits)

text \<open>
  C8, as the code has it.  The claim fails where several things are wrong at once: with no
  field at all the error names the query only, not the threshold that is absent as well; and
  with predictHorizon absent and a malformed address, the error names the address.
\<close>

theorem missing_field_counterexample:
  "TriggerMetadata (config_of [] []) ''threshold'' = None \<and>
   parsePredictKubeMetadata (pk_services (Inl (Error ''unused'')) (Inr 0) (Some SERVING, None)) (config_of [] [])
     = Inl (Error ''no query given'') \<and>
   TriggerMetadata (config_of [(''query'', ''up''), (''prometheusAddress'', ''not a url'')] []) ''predictHorizon'' = None \<and>
   TriggerMetadata (config_of [(''query'', ''up''), (''prometheusAddress'', ''not a url'')] []) ''prometheusAddress''
     = Some ''not a url'' \<and>
   parsePredictKubeMetadata (pk_services (Inl (Error ''unused'')) (Inr 0) (Some SERVING, None))
       (config_of [(''query'', ''up''), (''prometheusAddress'', ''not a url'')] [])
     = Inl (Error ''invalid prometheusAddress'')"
  by (simp add: parsePredictKubeMetadata_def config_of_def pk_services_def plain_validator_def)

text \<open>
  C8 (amended): parsePredictKubeMetadata checks query, prometheusAddress, predictHorizon,
  queryStep, historyTimeWindow, threshold and apiKey in this order and stops at the first
  check that fails; when a required field is absent and every field before it is present and
  accepted, the error is the one naming that field, and these seven errors differ from one
  another.  Whenever any required field is absent, validation fails and
  NewPredictKubeScaler makes no connection.  For the storage scaler, an absent bucketName
  gives the error \<^verbatim>\<open>no bucket name given\<close>, and NewGcsScaler makes no connection.
\<close>

theorem missing_field_errors:
  "(TriggerMetadata config ''query'' = None \<longrightarrow>
      parsePredictKubeMetadata ext config = Inl (Error ''no query given'')) \<and>
   (query_given config \<and> TriggerMetadata config ''prometheusAddress'' = None \<longrightarrow>
      parsePredictKubeMetadata ext config = Inl (Error ''no prometheusAddress given'')) \<and>
   (query_given config \<and> address_valid ext config \<and>
    TriggerMetadata config ''predictHorizon'' = None \<longrightarrow>
      parsePredictKubeMetadata ext config = Inl (Error ''no predictHorizon given'')) \<and>
   (query_given config \<and> address_valid ext config \<and> duration_valid ext config ''predictHorizon'' \<and>
    TriggerMetadata config ''queryStep'' = None \<longrightarrow>
      parsePredictKubeMetadata ext config = Inl (Error ''no queryStep given'')) \<and>
   (query_given config \<and> address_valid ext config \<and> duration_valid ext config ''predictHorizon'' \<and>
    duration_valid ext config ''queryStep'' \<and>
    TriggerMetadata config ''historyTimeWindow'' = None \<longrightarrow>
      parsePredictKubeMetadata ext config = Inl (Error ''no historyTimeWindow given'')) \<and>
   (query_given config \<and> address_valid ext config \<and> duration_valid ext config ''predictHorizon'' \<and>
    duration_valid ext config ''queryStep'' \<and> duration_valid ext config ''historyTimeWindow'' \<and>
    TriggerMetadata config ''threshold'' = None \<longrightarrow>
      parsePredictKubeMetadata ext config = Inl (Error ''no threshold given'')) \<and>
   (query_given config \<and> address_valid ext config \<and> duration_valid ext config ''predictHorizon'' \<and>
    duration_valid ext config ''queryStep'' \<and> duration_valid ext config ''historyTimeWindow'' \<and>
    threshold_valid ext config \<and>
    AuthParams config ''apiKey'' = None \<longrightarrow>
      parsePredictKubeMetadata ext config = Inl (Error ''no api key given'')) \<and>
   distinct [''no query given'', ''no prometheusAddress given'', ''no predictHorizon given'',
             ''no queryStep given'', ''no historyTimeWindow given'', ''no threshold given'',
             ''no api key given''] \<and>
   (TriggerMetadata config ''query'' = None \<or> TriggerMetadata config ''prometheusAddress'' = None \<or>
    TriggerMetadata config ''predictHorizon'' = None \<or> TriggerMetadata config ''queryStep'' = None \<or>
    TriggerMetadata config ''historyTimeWindow'' = None \<or> TriggerMetadata config ''threshold'' = None \<or>
    AuthParams config ''apiKey'' = None \<longrightarrow>
      isl (parsePredictKubeMetadata ext config) \<and> snd (NewPredictKubeScaler ext config) = []) \<and>
   (TriggerMetadata config ''bucketName'' = None \<longrightarrow>
      parseGcsMetadata gext config = Inl (Error ''no bucket name given'') \<and>
      snd (NewGcsScaler gext config) = [])"
proof -
  have fails: "isl (parsePredictKubeMetadata ext config) \<and> snd (NewPredictKubeScaler ext config) = []"
    if "TriggerMetadata config ''query'' = None \<or> TriggerMetadata config ''prometheusAddress'' = None \<or>
        TriggerMetadata config ''predictHorizon'' = None \<or> TriggerMetadata config ''queryStep'' = None \<or>
        TriggerMetadata config ''historyTimeWindow'' = None \<or> TriggerMetadata config ''threshold'' = None \<or>
        AuthParams config ''apiKey'' = None"
  proof -
    have "isl (parsePredictKubeMetadata ext config)"
    proof (cases "parsePredictKubeMetadata ext config")
      case (Inl err)
      then show ?thesis by simp
    next
      case (Inr meta)
      from parse_success_fields[OF this] that show ?thesis by auto
    qed
    then show ?thesis
      using parse_failure_no_connection by blast
  qed
  have gcs: "parseGcsMetadata gext config = Inl (Error ''no bucket name given'') \<and>
             snd (NewGcsScaler gext config) = []"
    if "TriggerMetadata config ''bucketName'' = None"
  proof -
    have "parseGcsMetadata gext config = Inl (Error ''no bucket name given'')"
      using that by (simp add: parseGcsMetadata_def)
    then show ?thesis
      using gcs_parse_failure_no_connection[of gext config] by simp
  qed
  have names: "distinct [''no query given'', ''no prometheusAddress given'', ''no predictHorizon given'',
             ''no queryStep given'', ''no historyTimeWindow given'', ''no threshold given'',
             ''no api key given'']"
    by simp
  show ?thesis
    using no_query[of config ext] no_address[of config ext] no_horizon[of config ext]
      no_step[of config ext] no_window[of config ext] no_threshold[of config ext]
      no_apiKey[of config ext] names fails gcs
    by blast
qed

theorem missing_field_errors_witness:
  "parsePredictKubeMetadata (pk_services (Inl (Error ''unused'')) (Inr 0) (Some SERVING, None))
       (config_of [(''query'', ''up''), (''prometheusAddress'', ''http://prometheus:9090''),
                   (''predictHorizon'', ''120m''), (''queryStep'', ''2m''),
                   (''historyTimeWindow'', ''10080m''), (''threshold'', ''100'')] [])
     = Inl (Error ''no api key given'') \<and>
   snd (NewPredictKubeScaler (pk_services (Inl (Error ''unused'')) (Inr 0) (Some SERVING, None))
       (config_of [(''query'', ''up''), (''prometheusAddress'', ''http://prometheus:9090''),
                   (''predictHorizon'', ''120m''), (''queryStep'', ''2m''),
                   (''historyTimeWindow'', ''10080m''), (''threshold'', ''100'')] [])) = [] \<and>
   parseGcsMetadata gcs_libraries
       (config_of [(''query'', ''up''), (''prometheusAddress'', ''http://prometheus:9090''),
                   (''predictHorizon'', ''120m''), (''queryStep'', ''2m''),
                   (''historyTimeWindow'', ''10080m''), (''threshold'', ''100'')] [])
     = Inl (Error ''no bucket name given'') \<and>
   snd (NewGcsScaler gcs_libraries
       (config_of [(''query'', ''up''), (''prometheusAddress'', ''http://prometheus:9090''),
                   (''predictHorizon'', ''120m''), (''queryStep'', ''2m''),
                   (''historyTimeWindow'', ''10080m''), (''threshold'', ''100'')] [])) = []"
proof -
  let ?ext = "pk_services (Inl (Error ''unused'')) (Inr 0) (Some SERVING, None)"
  let ?config = "config_of [(''query'', ''up''), (''prometheusAddress'', ''http://prometheus:9090''),
                   (''predictHorizon'', ''120m''), (''queryStep'', ''2m''),
                   (''historyTimeWindow'', ''10080m''), (''threshold'', ''100'')] []"
  have q: "query_given ?config"
    by (simp add: query_given_def config_of_def)
  have a: "address_valid ?ext ?config"
    by (simp add: address_valid_def config_of_def pk_services_def plain_validator_def)
  have d: "duration_valid ?ext ?config ''predictHorizon''" "duration_valid ?ext ?config ''queryStep''"
    "duration_valid ?ext ?config ''historyTimeWindow''"
    by (simp_all add: duration_valid_def config_of_def pk_services_def minutes_duration_def decimal_eval)
  have t: "threshold_valid ?ext ?config"
    by (simp add: threshold_valid_def config_of_def pk_services_def decimal_eval)
  have k: "AuthParams ?config ''apiKey'' = None" "TriggerMetadata ?config ''bucketName'' = None"
    by (simp_all add: config_of_def)
  show ?thesis
    using missing_field_errors[of ?config ?ext gcs_libraries] q a d t k
    by simp
qed

end
